theory Spec2Isabelle
  imports Complex_Main "HOL-Library.Sublist"
begin

section \<open>Export server: scene data, file system and external collaborators\<close>

text \<open>
  The export pipeline exists in two variants in the repository, both exporting a function
  \<^verbatim>\<open>renderVideo\<close>:
  \<^item> the variant with asset staging and directory cleanup (\<^verbatim>\<open>src/unnamed/part_001\<close>:
    \<^verbatim>\<open>cleanupExport\<close>, \<^verbatim>\<open>downloadAsset\<close>, \<^verbatim>\<open>prepareDesignAssets\<close>, \<^verbatim>\<open>renderVideo\<close>); its
    functions keep their names here;
  \<^item> the variant of \<^verbatim>\<open>src/src/renderer/captureFrames.ts\<close> (\<^verbatim>\<open>getLocalPath\<close>,
    \<^verbatim>\<open>processDesignPaths\<close>, \<^verbatim>\<open>renderVideo\<close>); its functions carry the suffix \<open>_cf\<close>.
  \<^verbatim>\<open>extractAudio\<close> (\<^verbatim>\<open>audio.ts\<close>) and \<^verbatim>\<open>mergeVideo\<close> (\<^verbatim>\<open>ffmpeg.ts\<close>) are shared.

  JavaScript numbers that hold durations and playback positions are modelled as reals
  (comparison, \<open>max\<close> and \<open>floor\<close> are exact on finite floats; \<open>NaN\<close> is removed by the
  source's \<^verbatim>\<open>parseFloat(output) || 0\<close>). Strings are byte strings.
\<close>

subsection \<open>Scene description\<close>

text \<open>An object of the design's \<^verbatim>\<open>objects\<close> array; an absent field is \<open>None\<close>.\<close>

record element =
  customType :: "string option"
  type :: "string option"
  src :: "string option"
  originalSrc :: "string option"
  muted :: bool

text \<open>JavaScript truthiness of an optional string field: absent and the empty string are falsy.\<close>

definition truthy :: "string option \<Rightarrow> bool" where
  "truthy s = (case s of None \<Rightarrow> False | Some v \<Rightarrow> v \<noteq> [])"

text \<open>\<^verbatim>\<open>obj.customType || obj.type\<close>\<close>

definition effective_type :: "element \<Rightarrow> string option" where
  "effective_type obj = (if truthy (customType obj) then customType obj else type obj)"

text \<open>
  The \<^verbatim>\<open>layers\<close> field of a design. A JSON string is represented by the value
  \<^verbatim>\<open>JSON.parse\<close> gives for it: \<open>None\<close> when parsing (or reading \<^verbatim>\<open>.objects\<close> of the parsed
  value) throws, otherwise the parsed object's optional \<^verbatim>\<open>objects\<close> array;
  \<^verbatim>\<open>JSON.stringify\<close> followed by \<^verbatim>\<open>JSON.parse\<close> is the identity on it. A falsy
  \<^verbatim>\<open>layers\<close> (absent, or the empty string) is \<open>NoLayers\<close>.
\<close>

datatype layers_field =
    NoLayers
  | LayersJson "element list option option"
  | LayersObj "element list option"

record design =
  layers :: layers_field
  objects :: "element list option"

subsection \<open>File system, trace of effects, external collaborators\<close>

text \<open>External commands run through \<^verbatim>\<open>execSync\<close>.\<close>

datatype command =
    AudioCopy string string
  | FramesExtract string string nat real
  | MergeFrames string "string option" string

text \<open>The observable effects of a run, in the order in which the code starts them.\<close>

datatype event =
    Fetch string
  | WriteFile string
  | Mkdir string
  | Exec command
  | FallbackAttempt "string option"
  | WriteFrame nat string
  | Progress int string
  | Upload string
  | Unlink string
  | Rm string
  | BrowserClose

record world =
  files :: "string set"
  trace :: "event list"

datatype error =
    MkdirError
  | LaunchError
  | JsonError
  | SurfaceError
  | CaptureError nat
  | WriteError nat
  | EncodeError
  | ReadError
  | NetworkError
  | UploadError
  | CloseError

text \<open>What the rendering surface shows for frame \<open>i\<close>.\<close>

record frame_obs =
  seek_ok :: bool
  video_times :: "real list"
  capture :: "string option option"

datatype upload_result = UploadThrows | UploadResponse bool

text \<open>
  The collaborators outside the repository, as parameters: Node's \<^verbatim>\<open>os.tmpdir\<close>,
  \<^verbatim>\<open>crypto\<close> MD5 and \<^verbatim>\<open>path.extname\<close>, the network (\<^verbatim>\<open>fetch\<close> of an asset answers
  \<^verbatim>\<open>response.ok\<close> or not, and may answer differently as the run goes on), the disk
  (\<^verbatim>\<open>writeFile\<close>, \<^verbatim>\<open>mkdir\<close>, \<^verbatim>\<open>rm\<close>, \<^verbatim>\<open>unlink\<close>, \<^verbatim>\<open>readFile\<close> may throw), \<^verbatim>\<open>ffprobe\<close>
  (\<open>None\<close>: the command fails or prints no number), \<^verbatim>\<open>ffmpeg\<close> (\<open>None\<close>: non-zero exit,
  otherwise the files it leaves), Puppeteer and the rendering page, and the upload endpoint.
\<close>

record env =
  tmpdir :: string
  md5hex :: "string \<Rightarrow> string"
  extname :: "string \<Rightarrow> string"
  fetch_ok :: "world \<Rightarrow> string \<Rightarrow> bool"
  writeFile_ok :: "world \<Rightarrow> string \<Rightarrow> bool"
  mkdir_ok :: "string \<Rightarrow> bool"
  rm_ok :: "string \<Rightarrow> bool"
  unlink_ok :: "string \<Rightarrow> bool"
  readFile_ok :: "string \<Rightarrow> bool"
  ffprobe :: "string \<Rightarrow> real option"
  exec :: "command \<Rightarrow> string set \<Rightarrow> string set option"
  launch_ok :: bool
  newPage_ok :: bool
  close_ok :: bool
  surface_ready :: bool
  frame :: "nat \<Rightarrow> frame_obs"
  upload_response :: upload_result

definition emit :: "event \<Rightarrow> world \<Rightarrow> world" where
  "emit ev w = w\<lparr>trace := trace w @ [ev]\<rparr>"

text \<open>\<^verbatim>\<open>path.join\<close> of segments that are already normalised.\<close>

definition join :: "string \<Rightarrow> string \<Rightarrow> string" where
  "join a b = a @ ''/'' @ b"

text \<open>\<^verbatim>\<open>mkdir(p, { recursive: true })\<close> creates \<open>p\<close> and every missing ancestor.\<close>

definition ancestors :: "string \<Rightarrow> string list" where
  "ancestors p = [take n p. n \<leftarrow> [1..<length p], p ! n = CHR ''/'']"

definition mkdir_recursive :: "string \<Rightarrow> world \<Rightarrow> world" where
  "mkdir_recursive p w = emit (Mkdir p) (w\<lparr>files := files w \<union> set (ancestors p) \<union> {p}\<rparr>)"

text \<open>\<^verbatim>\<open>rm(p, { recursive: true, force: true })\<close> removes \<open>p\<close> and everything below it.\<close>

definition rm_recursive :: "string \<Rightarrow> world \<Rightarrow> world" where
  "rm_recursive p w =
     emit (Rm p) (w\<lparr>files := Set.filter (\<lambda>q. q \<noteq> p \<and> \<not> prefix (p @ ''/'') q) (files w)\<rparr>)"

text \<open>\<^verbatim>\<open>s.startsWith(p)\<close>, \<^verbatim>\<open>s.includes(sub)\<close>, \<^verbatim>\<open>s.split(c)[0]\<close>\<close>

definition startsWith :: "string \<Rightarrow> string \<Rightarrow> bool" where
  "startsWith s p = prefix p s"

fun str_includes :: "string \<Rightarrow> string \<Rightarrow> bool" where
  "str_includes [] sub = (sub = [])"
| "str_includes (c # cs) sub = (prefix sub (c # cs) \<or> str_includes cs sub)"

definition split_first :: "char \<Rightarrow> string \<Rightarrow> string" where
  "split_first c s = takeWhile (\<lambda>x. x \<noteq> c) s"

section \<open>Asset staging (\<^verbatim>\<open>downloadAsset\<close>, \<^verbatim>\<open>prepareDesignAssets\<close>)\<close>

text \<open>
  \<^verbatim>\<open>let ext = extname(url).split('?')[0]; if (!ext || ext.length > 5) ext = '.bin';\<close>
  and \<^verbatim>\<open>join(assetsDir, `${urlHash}${ext}`)\<close>
\<close>

definition asset_ext :: "'a env_scheme \<Rightarrow> string \<Rightarrow> string" where
  "asset_ext e url =
     (let ext = split_first CHR ''?'' (extname e url)
      in if ext = [] \<or> length ext > 5 then ''.bin'' else ext)"

definition asset_path :: "'a env_scheme \<Rightarrow> string \<Rightarrow> string \<Rightarrow> string" where
  "asset_path e url assetsDir = join assetsDir (md5hex e url @ asset_ext e url)"

text \<open>
  \<^verbatim>\<open>downloadAsset(url, assetsDir)\<close>: a source that is empty or does not start with
  \<^verbatim>\<open>http\<close> is returned as it is; a file already staged is reused; a failed fetch or write
  is caught and the original URL returned.
\<close>

definition downloadAsset :: "'a env_scheme \<Rightarrow> string \<Rightarrow> string \<Rightarrow> world \<Rightarrow> string \<times> world" where
  "downloadAsset e url assetsDir w =
     (if url = [] \<or> \<not> startsWith url ''http'' then (url, w)
      else
        let localPath = asset_path e url assetsDir in
        if localPath \<in> files w then (localPath, w)
        else
          let w1 = emit (Fetch url) w in
          if \<not> fetch_ok e w url then (url, w1)
          else if \<not> writeFile_ok e w1 localPath then (url, w1)
          else (localPath, emit (WriteFile localPath) (w1\<lparr>files := insert localPath (files w1)\<rparr>)))"

text \<open>
  One pass of the loop body of \<^verbatim>\<open>processObjects\<close>. The two assignments run in the
  source's order: \<^verbatim>\<open>obj.src = localPath; obj.originalSrc = obj.src;\<close>
\<close>

definition processObject :: "'a env_scheme \<Rightarrow> string \<Rightarrow> element \<Rightarrow> world \<Rightarrow> element \<times> world" where
  "processObject e assetsDir obj w =
     (case src obj of
        None \<Rightarrow> (obj, w)
      | Some s \<Rightarrow>
          if s = [] then (obj, w)
          else
            let (localPath, w1) = downloadAsset e s assetsDir w in
            if localPath \<noteq> [] \<and> localPath \<noteq> s then
              let obj1 = obj\<lparr>src := Some localPath\<rparr>;
                  obj2 = obj1\<lparr>originalSrc := src obj1\<rparr>
              in (obj2, w1)
            else (obj, w1))"

fun processObjects :: "'a env_scheme \<Rightarrow> string \<Rightarrow> element list \<Rightarrow> world \<Rightarrow> element list \<times> world" where
  "processObjects e assetsDir [] w = ([], w)"
| "processObjects e assetsDir (obj # objs) w =
     (let (obj', w1) = processObject e assetsDir obj w;
          (objs', w2) = processObjects e assetsDir objs w1
      in (obj' # objs', w2))"

definition processOptObjects ::
  "'a env_scheme \<Rightarrow> string \<Rightarrow> element list option \<Rightarrow> world \<Rightarrow> element list option \<times> world" where
  "processOptObjects e assetsDir objs w =
     (case objs of
        None \<Rightarrow> (None, w)
      | Some os \<Rightarrow> (let (os', w1) = processObjects e assetsDir os w in (Some os', w1)))"

text \<open>
  \<^verbatim>\<open>prepareDesignAssets(design, exportId)\<close>: works on a deep copy; creates the assets
  directory (a failing \<^verbatim>\<open>mkdir\<close> throws), stages the objects of \<^verbatim>\<open>layers\<close> (a string
  is parsed and repacked; a parse error is caught) and then the top-level \<^verbatim>\<open>objects\<close>.
\<close>

definition prepareDesignAssets ::
  "'a env_scheme \<Rightarrow> design \<Rightarrow> string \<Rightarrow> world \<Rightarrow> (error + design) \<times> world" where
  "prepareDesignAssets e d exportId w =
     (let assetsDir = join (join (tmpdir e) exportId) ''assets'' in
      if assetsDir \<notin> files w \<and> \<not> mkdir_ok e assetsDir then (Inl MkdirError, w)
      else
        let w0 = (if assetsDir \<notin> files w then mkdir_recursive assetsDir w else w);
            (ls, w1) =
              (case layers d of
                 NoLayers \<Rightarrow> (NoLayers, w0)
               | LayersJson None \<Rightarrow> (LayersJson None, w0)
               | LayersJson (Some lo) \<Rightarrow>
                   (let (lo', w') = processOptObjects e assetsDir lo w0 in (LayersJson (Some lo'), w'))
               | LayersObj lo \<Rightarrow>
                   (let (lo', w') = processOptObjects e assetsDir lo w0 in (LayersObj lo', w')));
            (os, w2) = processOptObjects e assetsDir (objects d) w1
        in (Inr (d\<lparr>layers := ls, objects := os\<rparr>), w2))"

section \<open>Audio extraction (\<^verbatim>\<open>extractAudio\<close>, \<^verbatim>\<open>audio.ts\<close>)\<close>

text \<open>
  The object list \<^verbatim>\<open>extractAudio\<close> searches: \<^verbatim>\<open>parsedData.objects || []\<close> when the
  design has \<^verbatim>\<open>layers\<close> (a parse error returns \<^verbatim>\<open>null\<close>), else \<^verbatim>\<open>design.objects\<close>,
  else \<^verbatim>\<open>null\<close> is returned.
\<close>

definition audio_objects :: "design \<Rightarrow> element list option" where
  "audio_objects d =
     (case layers d of
        NoLayers \<Rightarrow> objects d
      | LayersJson None \<Rightarrow> None
      | LayersJson (Some lo) \<Rightarrow> Some (case lo of None \<Rightarrow> [] | Some os \<Rightarrow> os)
      | LayersObj lo \<Rightarrow> Some (case lo of None \<Rightarrow> [] | Some os \<Rightarrow> os))"

text \<open>The predicate of \<^verbatim>\<open>objects.find\<close>: \<^verbatim>\<open>(o.customType || o.type) === 'video'\<close>\<close>

definition is_video :: "element \<Rightarrow> bool" where
  "is_video obj = (effective_type obj = Some ''video'')"

text \<open>
  \<^verbatim>\<open>extractAudio(design, outputDir?)\<close> returns the path of the extracted audio or
  \<^verbatim>\<open>null\<close>. The \<^verbatim>\<open>muted\<close> flag is only logged.
\<close>

definition extractAudio ::
  "'a env_scheme \<Rightarrow> design \<Rightarrow> string option \<Rightarrow> world \<Rightarrow> string option \<times> world" where
  "extractAudio e d outputDir w =
     (case audio_objects d of
        None \<Rightarrow> (None, w)
      | Some objs \<Rightarrow>
          (case find is_video objs of
             None \<Rightarrow> (None, w)
           | Some videoObj \<Rightarrow>
               (case src videoObj of
                  None \<Rightarrow> (None, w)
                | Some s \<Rightarrow>
                    if s = [] then (None, w)
                    else
                      let dir = (if truthy outputDir then the outputDir else tmpdir e);
                          output = join dir ''audio.aac'';
                          w1 = emit (Exec (AudioCopy s output)) w
                      in (case exec e (AudioCopy s output) (files w) of
                            None \<Rightarrow> (None, w1)
                          | Some fs \<Rightarrow> (Some output, w1\<lparr>files := fs\<rparr>)))))"

section \<open>Duration resolution (inside \<^verbatim>\<open>renderVideo\<close>, the same text in both variants)\<close>

text \<open>\<^verbatim>\<open>getMediaDuration\<close>: \<^verbatim>\<open>parseFloat(output) || 0\<close>, and \<open>0\<close> when \<^verbatim>\<open>ffprobe\<close> fails.\<close>

definition getMediaDuration :: "'a env_scheme \<Rightarrow> string \<Rightarrow> real" where
  "getMediaDuration e filePath = (case ffprobe e filePath of None \<Rightarrow> 0 | Some d \<Rightarrow> d)"

text \<open>\<^verbatim>\<open>if (audioPath && existsSync(audioPath)) audioDuration = getMediaDuration(audioPath)\<close>\<close>

definition audioDuration :: "'a env_scheme \<Rightarrow> string option \<Rightarrow> world \<Rightarrow> real" where
  "audioDuration e audioPath w =
     (if truthy audioPath \<and> the audioPath \<in> files w then getMediaDuration e (the audioPath) else 0)"

text \<open>The test of \<^verbatim>\<open>checkObjectsDuration\<close>: a video whose source is a file that exists.\<close>

definition local_video :: "world \<Rightarrow> element \<Rightarrow> bool" where
  "local_video w obj = (is_video obj \<and> truthy (src obj) \<and> the (src obj) \<in> files w)"

text \<open>\<^verbatim>\<open>checkObjectsDuration\<close>: the loop over the objects, \<open>m\<close> is \<^verbatim>\<open>maxVideoDuration\<close>.\<close>

fun checkObjectsDuration :: "'a env_scheme \<Rightarrow> world \<Rightarrow> element list \<Rightarrow> real \<Rightarrow> real" where
  "checkObjectsDuration e w [] m = m"
| "checkObjectsDuration e w (obj # objs) m =
     (if local_video w obj then
        let d = getMediaDuration e (the (src obj))
        in checkObjectsDuration e w objs (if d > m then d else m)
      else checkObjectsDuration e w objs m)"

text \<open>
  \<^verbatim>\<open>designObjects\<close>: the objects of \<^verbatim>\<open>layers\<close> when the design has \<^verbatim>\<open>layers\<close> (here
  \<^verbatim>\<open>JSON.parse\<close> is not guarded and throws), else the top-level objects, else \<open>[]\<close>.
\<close>

definition designObjects :: "design \<Rightarrow> error + element list" where
  "designObjects d =
     (case layers d of
        NoLayers \<Rightarrow> Inr (case objects d of None \<Rightarrow> [] | Some os \<Rightarrow> os)
      | LayersJson None \<Rightarrow> Inl JsonError
      | LayersJson (Some lo) \<Rightarrow> Inr (case lo of None \<Rightarrow> [] | Some os \<Rightarrow> os)
      | LayersObj lo \<Rightarrow> Inr (case lo of None \<Rightarrow> [] | Some os \<Rightarrow> os))"

text \<open>\<^verbatim>\<open>Math.max(maxVideoDuration, audioDuration, 5)\<close>\<close>

definition finalDuration :: "real \<Rightarrow> real \<Rightarrow> real" where
  "finalDuration maxVideoDuration audioDur = max (max maxVideoDuration audioDur) 5"

text \<open>Steps 1 to 3 of \<^verbatim>\<open>renderVideo\<close> once the audio path is known.\<close>

definition resolveDuration ::
  "'a env_scheme \<Rightarrow> design \<Rightarrow> string option \<Rightarrow> world \<Rightarrow> error + real" where
  "resolveDuration e localDesign audioPath w =
     (case designObjects localDesign of
        Inl err \<Rightarrow> Inl err
      | Inr objs \<Rightarrow>
          Inr (finalDuration (checkObjectsDuration e w objs 0) (audioDuration e audioPath w)))"

definition fps :: nat where
  "fps = 24"

text \<open>\<^verbatim>\<open>Math.floor(duration * fps)\<close>\<close>

definition totalFrames :: "real \<Rightarrow> nat" where
  "totalFrames duration = nat \<lfloor>duration * real fps\<rfloor>"

section \<open>Seeking inside the page (\<^verbatim>\<open>__SEEK_VIDEO__\<close>)\<close>

text \<open>
  A \<^verbatim>\<open><video>\<close> element: its position, and after how many milliseconds it fires
  \<^verbatim>\<open>seeked\<close> once its position is set (\<open>None\<close>: never).
\<close>

record video =
  currentTime :: real
  seeked_after :: "nat option"

text \<open>
  How the promise made for one element settles: in the executor itself, or later, after
  the given number of milliseconds.
\<close>

datatype settle = Immediately | After nat

text \<open>
  The promise of one element: resolved at once within the tolerance; otherwise resolved
  by whichever comes first, the \<^verbatim>\<open>seeked\<close> listener or the \<^verbatim>\<open>setTimeout(..., 2000)\<close>.
\<close>

definition seekPromise :: "real \<Rightarrow> video \<Rightarrow> settle" where
  "seekPromise time v =
     (if \<bar>currentTime v - time\<bar> < 0.05 then Immediately
      else After (case seeked_after v of None \<Rightarrow> 2000 | Some d \<Rightarrow> min d 2000))"

definition wait_ms :: "settle \<Rightarrow> nat" where
  "wait_ms s = (case s of Immediately \<Rightarrow> 0 | After d \<Rightarrow> d)"

text \<open>
  \<^verbatim>\<open>__SEEK_VIDEO__(time)\<close>: milliseconds until \<^verbatim>\<open>Promise.all(seekPromises)\<close> resolves
  (\<open>0\<close> with no video). The \<^verbatim>\<open>Number.isFinite(time)\<close> guard of \<^verbatim>\<open>captureFrames.ts\<close>
  never fires on a real number.
\<close>

definition seek_video :: "real \<Rightarrow> video list \<Rightarrow> nat" where
  "seek_video time videos = fold max (map (\<lambda>v. wait_ms (seekPromise time v)) videos) 0"

section \<open>Frame capture loop, fallback, merge, upload and cleanup\<close>

text \<open>\<^verbatim>\<open>reportProgress\<close>: a POST to the webhook when one is configured; its failure is caught.\<close>

definition reportProgress :: "string option \<Rightarrow> int \<Rightarrow> string \<Rightarrow> world \<Rightarrow> world" where
  "reportProgress webhookUrl progress status w =
     (if truthy webhookUrl then emit (Progress progress status) w else w)"

text \<open>\<^verbatim>\<open>Math.round\<close>\<close>

definition js_round :: "real \<Rightarrow> int" where
  "js_round x = \<lfloor>x + 1 / 2\<rfloor>"

text \<open>The decimal digits of an index, as in a template literal.\<close>

definition digit_char :: "nat \<Rightarrow> char" where
  "digit_char d = ''0123456789'' ! d"

fun string_of_nat :: "nat \<Rightarrow> string" where
  "string_of_nat n =
     (if 10 \<le> n then string_of_nat (n div 10) @ [digit_char (n mod 10)] else [digit_char n])"

declare string_of_nat.simps [simp del]

text \<open>\<^verbatim>\<open>`frame_${i}.png`\<close>\<close>

definition frame_name :: "nat \<Rightarrow> string" where
  "frame_name i = ''frame_'' @ string_of_nat i @ ''.png''"

text \<open>
  \<^verbatim>\<open>Buffer.from(dataUrl.split(',')[1], 'base64')\<close> throws unless \<^verbatim>\<open>dataUrl\<close> is a string
  with a comma in it.
\<close>

definition decodable :: "string option \<Rightarrow> bool" where
  "decodable v = (case v of None \<Rightarrow> False | Some s \<Rightarrow> CHR '','' \<in> set s)"

text \<open>
  The sample of the first five frames in \<^verbatim>\<open>part_001\<close>: the first video of the page,
  \<^verbatim>\<open>v ? Math.abs(v.currentTime - t) : 0\<close>, a success when below \<open>0.5\<close>.
\<close>

definition seek_accurate :: "frame_obs \<Rightarrow> real \<Rightarrow> bool" where
  "seek_accurate obs time =
     ((case video_times obs of [] \<Rightarrow> 0 | t # _ \<Rightarrow> \<bar>t - time\<bar>) < 0.5)"

text \<open>
  One pass of the body of the \<^verbatim>\<open>for\<close> loop of \<^verbatim>\<open>part_001\<close> at index \<open>i\<close>, with the
  counters \<^verbatim>\<open>successfulSeeks\<close> and \<^verbatim>\<open>failedSeeks\<close>: progress report (not awaited),
  seek, sample of the accuracy for \<open>i < 5\<close>, capture, decoding and \<^verbatim>\<open>writeFile\<close>.
\<close>

definition captureFrame ::
  "'a env_scheme \<Rightarrow> string \<Rightarrow> string option \<Rightarrow> nat \<Rightarrow> nat \<Rightarrow> nat \<Rightarrow> nat \<Rightarrow> world
     \<Rightarrow> (error + nat \<times> nat) \<times> world" where
  "captureFrame e framesDir webhookUrl nframes i s f w =
     (let time = real i / real fps;
          w1 = (if i mod 5 = 0
                then reportProgress webhookUrl (js_round (real i / real nframes * 100))
                       ''rendering_frames'' w
                else w);
          obs = frame e i
      in
        if \<not> seek_ok obs then (Inl (CaptureError i), w1)
        else
          let s1 = (if i < 5 \<and> seek_accurate obs time then s + 1 else s);
              f1 = (if i < 5 \<and> \<not> seek_accurate obs time then f + 1 else f)
          in
            (case capture obs of
               None \<Rightarrow> (Inl (CaptureError i), w1)
             | Some dataUrl \<Rightarrow>
                 if \<not> decodable dataUrl then (Inl (CaptureError i), w1)
                 else
                   let p = join framesDir (frame_name i) in
                   if \<not> writeFile_ok e w1 p then (Inl (WriteError i), w1)
                   else (Inr (s1, f1),
                         emit (WriteFrame i p) (w1\<lparr>files := insert p (files w1)\<rparr>))))"

text \<open>\<^verbatim>\<open>for (let i = 0; i < totalFrames; i++)\<close>, from index \<open>i\<close>; an exception ends it.\<close>

function captureLoop ::
  "'a env_scheme \<Rightarrow> string \<Rightarrow> string option \<Rightarrow> nat \<Rightarrow> nat \<Rightarrow> nat \<Rightarrow> nat \<Rightarrow> world
     \<Rightarrow> (error + nat \<times> nat) \<times> world" where
  "captureLoop e framesDir webhookUrl nframes i s f w =
     (if i < nframes then
        (case captureFrame e framesDir webhookUrl nframes i s f w of
           (Inl err, w1) \<Rightarrow> (Inl err, w1)
         | (Inr (s1, f1), w1) \<Rightarrow> captureLoop e framesDir webhookUrl nframes (i + 1) s1 f1 w1)
      else (Inr (s, f), w))"
  by pat_completeness auto
termination
  by (relation "measure (\<lambda>(e, framesDir, webhookUrl, nframes, i, s, f, w). nframes - i)") auto

declare captureLoop.simps [simp del]

text \<open>
  The guard of \<^verbatim>\<open>captureFrames.ts\<close> before a frame is written:
  \<^verbatim>\<open>!dataUrl || typeof dataUrl !== 'string' || !dataUrl.includes('data:image')\<close>
  skips the frame with \<^verbatim>\<open>continue\<close>.
\<close>

definition valid_dataUrl :: "string option \<Rightarrow> bool" where
  "valid_dataUrl v = (case v of None \<Rightarrow> False | Some s \<Rightarrow> s \<noteq> [] \<and> str_includes s ''data:image'')"

text \<open>The sample in \<^verbatim>\<open>captureFrames.ts\<close>: every video of the page within \<open>0.5\<close>.\<close>

definition seek_accurate_cf :: "frame_obs \<Rightarrow> real \<Rightarrow> bool" where
  "seek_accurate_cf obs time = list_all (\<lambda>t. \<bar>t - time\<bar> < 0.5) (video_times obs)"

text \<open>One pass of the loop body of \<^verbatim>\<open>captureFrames.ts\<close>; \<^verbatim>\<open>continue\<close> ends the pass.\<close>

definition captureFrame_cf ::
  "'a env_scheme \<Rightarrow> string \<Rightarrow> string option \<Rightarrow> nat \<Rightarrow> nat \<Rightarrow> nat \<Rightarrow> nat \<Rightarrow> world
     \<Rightarrow> (error + nat \<times> nat) \<times> world" where
  "captureFrame_cf e framesDir webhookUrl nframes i s f w =
     (let time = real i / real fps;
          w1 = (if i mod 5 = 0
                then reportProgress webhookUrl (js_round (real i / real nframes * 100))
                       ''rendering_frames'' w
                else w);
          obs = frame e i
      in
        if \<not> seek_ok obs then (Inl (CaptureError i), w1)
        else
          let s1 = (if i < 5 \<and> seek_accurate_cf obs time then s + 1 else s);
              f1 = (if i < 5 \<and> \<not> seek_accurate_cf obs time then f + 1 else f)
          in
            (case capture obs of
               None \<Rightarrow> (Inl (CaptureError i), w1)
             | Some dataUrl \<Rightarrow>
                 if \<not> valid_dataUrl dataUrl then (Inr (s1, f1), w1)
                 else if \<not> decodable dataUrl then (Inl (CaptureError i), w1)
                 else
                   let p = join framesDir (frame_name i) in
                   if \<not> writeFile_ok e w1 p then (Inl (WriteError i), w1)
                   else (Inr (s1, f1),
                         emit (WriteFrame i p) (w1\<lparr>files := insert p (files w1)\<rparr>))))"

function captureLoop_cf ::
  "'a env_scheme \<Rightarrow> string \<Rightarrow> string option \<Rightarrow> nat \<Rightarrow> nat \<Rightarrow> nat \<Rightarrow> nat \<Rightarrow> world
     \<Rightarrow> (error + nat \<times> nat) \<times> world" where
  "captureLoop_cf e framesDir webhookUrl nframes i s f w =
     (if i < nframes then
        (case captureFrame_cf e framesDir webhookUrl nframes i s f w of
           (Inl err, w1) \<Rightarrow> (Inl err, w1)
         | (Inr (s1, f1), w1) \<Rightarrow> captureLoop_cf e framesDir webhookUrl nframes (i + 1) s1 f1 w1)
      else (Inr (s, f), w))"
  by pat_completeness auto
termination
  by (relation "measure (\<lambda>(e, framesDir, webhookUrl, nframes, i, s, f, w). nframes - i)") auto

declare captureLoop_cf.simps [simp del]

text \<open>
  \<^verbatim>\<open>extractVideoFramesWithFFmpeg\<close>: announces the attempt, gives up when the video file
  is missing, creates the output directory, runs \<^verbatim>\<open>ffmpeg\<close>; every exception is caught
  and answered with \<^verbatim>\<open>false\<close>.
\<close>

definition extractVideoFramesWithFFmpeg ::
  "'a env_scheme \<Rightarrow> string option \<Rightarrow> string \<Rightarrow> nat \<Rightarrow> real \<Rightarrow> world \<Rightarrow> bool \<times> world" where
  "extractVideoFramesWithFFmpeg e videoPath outputDir rate duration w =
     (let w0 = emit (FallbackAttempt videoPath) w in
      if \<not> (truthy videoPath \<and> the videoPath \<in> files w0) then (False, w0)
      else if outputDir \<notin> files w0 \<and> \<not> mkdir_ok e outputDir then (False, w0)
      else
        let w1 = (if outputDir \<notin> files w0 then mkdir_recursive outputDir w0 else w0);
            cmd = FramesExtract (the videoPath) outputDir rate duration;
            w2 = emit (Exec cmd) w1
        in (case exec e cmd (files w1) of
              None \<Rightarrow> (False, w2)
            | Some fs \<Rightarrow> (True, w2\<lparr>files := fs\<rparr>)))"

text \<open>
  The fallback check of \<^verbatim>\<open>part_001\<close>:
  \<^verbatim>\<open>if (failedSeeks > successfulSeeks) { if (designObjects.length === 1 && designObjects[0].type === 'video') ... }\<close>
\<close>

definition fallbackCheck ::
  "'a env_scheme \<Rightarrow> element list \<Rightarrow> string \<Rightarrow> real \<Rightarrow> nat \<Rightarrow> nat \<Rightarrow> world \<Rightarrow> world" where
  "fallbackCheck e objs framesDir duration s f w =
     (if f > s then
        (case objs of
           [obj] \<Rightarrow>
             if type obj = Some ''video''
             then snd (extractVideoFramesWithFFmpeg e (src obj) framesDir fps duration w)
             else w
         | _ \<Rightarrow> w)
      else w)"

text \<open>
  \<^verbatim>\<open>mergeVideo(framesDir, audio, exportId)\<close> (\<^verbatim>\<open>ffmpeg.ts\<close>): the output goes below
  \<^verbatim>\<open>../main/storage/app/public/exports/videos\<close>; a failing encoder is rethrown.
\<close>

definition mergeVideo ::
  "'a env_scheme \<Rightarrow> string \<Rightarrow> string option \<Rightarrow> string \<Rightarrow> world \<Rightarrow> (error + unit) \<times> world" where
  "mergeVideo e framesDir audio exportId w =
     (let outputDir = ''../main/storage/app/public/exports/videos'';
          output = join outputDir (exportId @ ''.mp4'')
      in
        if outputDir \<notin> files w \<and> \<not> mkdir_ok e outputDir then (Inl MkdirError, w)
        else
          let w0 = (if outputDir \<notin> files w then mkdir_recursive outputDir w else w);
              cmd = MergeFrames framesDir (if truthy audio then audio else None) output;
              w1 = emit (Exec cmd) w0
          in (case exec e cmd (files w0) of
                None \<Rightarrow> (Inl EncodeError, w1)
              | Some fs \<Rightarrow> (Inr (), w1\<lparr>files := fs\<rparr>)))"

text \<open>
  The upload block of \<^verbatim>\<open>part_001\<close> (from \<^verbatim>\<open>const videoPath = join(baseDir, ...)\<close> to the
  end of the \<^verbatim>\<open>try\<close> body): a response that is not \<^verbatim>\<open>ok\<close> throws; nothing is caught
  here.
\<close>

definition uploadVideo ::
  "'a env_scheme \<Rightarrow> string \<Rightarrow> string \<Rightarrow> string option \<Rightarrow> world \<Rightarrow> (error + unit) \<times> world" where
  "uploadVideo e baseDir exportId webhookUrl w =
     (let videoPath = join baseDir (exportId @ ''.mp4'') in
      if videoPath \<in> files w then
        if \<not> readFile_ok e videoPath then (Inl ReadError, w)
        else
          let w1 = emit (Upload videoPath) w in
          (case upload_response e of
             UploadThrows \<Rightarrow> (Inl NetworkError, w1)
           | UploadResponse ok \<Rightarrow>
               if \<not> ok then (Inl UploadError, w1)
               else (Inr (), reportProgress webhookUrl 100 ''completed'' w1))
      else (Inr (), reportProgress webhookUrl 100 ''failed'' w))"

text \<open>\<^verbatim>\<open>cleanupExport(exportId)\<close>: a failing \<^verbatim>\<open>rm\<close> is caught and logged.\<close>

definition cleanupExport :: "'a env_scheme \<Rightarrow> string \<Rightarrow> world \<Rightarrow> world" where
  "cleanupExport e exportId w =
     (let exportDir = join (tmpdir e) exportId in
      if exportDir \<in> files w then
        (if rm_ok e exportDir then rm_recursive exportDir w else w)
      else w)"

section \<open>\<^verbatim>\<open>renderVideo\<close> of \<^verbatim>\<open>part_001\<close>\<close>

text \<open>
  The body of the \<^verbatim>\<open>try\<close> block. Request interception and the conversion of paths to
  \<^verbatim>\<open>file://\<close> URLs only change what the page loads; the page is the parameter
  \<open>frame\<close>/\<open>surface_ready\<close> here (\<open>surface_ready\<close>: \<^verbatim>\<open>newPage\<close>, \<^verbatim>\<open>goto\<close>, the injected
  functions and both \<^verbatim>\<open>waitForFunction\<close> calls succeed).
\<close>

definition renderVideo_try ::
  "'a env_scheme \<Rightarrow> design \<Rightarrow> string \<Rightarrow> string option \<Rightarrow> world \<Rightarrow> (error + unit) \<times> world" where
  "renderVideo_try e d exportId webhookUrl w =
     (let baseDir = join (tmpdir e) exportId;
          framesDir = join baseDir ''frames''
      in
        case prepareDesignAssets e d exportId w of
          (Inl err, w1) \<Rightarrow> (Inl err, w1)
        | (Inr localDesign, w1) \<Rightarrow>
            let (audioPath, w2) = extractAudio e localDesign (Some baseDir) w1 in
            (case resolveDuration e localDesign audioPath w2 of
               Inl err \<Rightarrow> (Inl err, w2)
             | Inr duration \<Rightarrow>
                 if \<not> (newPage_ok e \<and> surface_ready e) then (Inl SurfaceError, w2)
                 else
                   (case captureLoop e framesDir webhookUrl (totalFrames duration) 0 0 0 w2 of
                      (Inl err, w3) \<Rightarrow> (Inl err, w3)
                    | (Inr (s, f), w3) \<Rightarrow>
                        let objs = (case designObjects localDesign of Inr os \<Rightarrow> os | Inl _ \<Rightarrow> []);
                            w4 = fallbackCheck e objs framesDir duration s f w3;
                            w5 = reportProgress webhookUrl 90 ''merging_video'' w4
                        in
                          (case mergeVideo e framesDir audioPath exportId w5 of
                             (Inl err, w6) \<Rightarrow> (Inl err, w6)
                           | (Inr u, w6) \<Rightarrow>
                               uploadVideo e baseDir exportId webhookUrl
                                 (reportProgress webhookUrl 95 ''uploading'' w6)))))"

text \<open>
  \<^verbatim>\<open>renderVideo(design, exportId, webhookUrl)\<close>: the frames directory is created and the
  browser launched before the \<^verbatim>\<open>try\<close>; the \<^verbatim>\<open>catch\<close> rethrows; the \<^verbatim>\<open>finally\<close> closes
  the browser and then calls \<^verbatim>\<open>cleanupExport\<close> (an exception of \<^verbatim>\<open>browser.close\<close>
  leaves the \<^verbatim>\<open>finally\<close> block at once).
\<close>

definition renderVideo ::
  "'a env_scheme \<Rightarrow> design \<Rightarrow> string \<Rightarrow> string option \<Rightarrow> world \<Rightarrow> (error + unit) \<times> world" where
  "renderVideo e d exportId webhookUrl w =
     (let baseDir = join (tmpdir e) exportId;
          framesDir = join baseDir ''frames''
      in
        if framesDir \<notin> files w \<and> \<not> mkdir_ok e framesDir then (Inl MkdirError, w)
        else
          let w0 = (if framesDir \<notin> files w then mkdir_recursive framesDir w else w) in
          if \<not> launch_ok e then (Inl LaunchError, w0)
          else
            let (r, w1) = renderVideo_try e d exportId webhookUrl w0;
                w2 = emit BrowserClose w1
            in
              if \<not> close_ok e then (Inl CloseError, w2)
              else (r, cleanupExport e exportId w2))"

section \<open>The variant of \<^verbatim>\<open>captureFrames.ts\<close>\<close>

text \<open>\<^verbatim>\<open>s.split(sep)[1]\<close> for a string \<open>s\<close> that contains \<open>sep\<close>.\<close>

fun after_first :: "string \<Rightarrow> string \<Rightarrow> string option" where
  "after_first sep [] = None"
| "after_first sep (c # cs) =
     (if prefix sep (c # cs) then Some (drop (length sep) (c # cs)) else after_first sep cs)"

fun before_first :: "string \<Rightarrow> string \<Rightarrow> string" where
  "before_first sep [] = []"
| "before_first sep (c # cs) = (if prefix sep (c # cs) then [] else c # before_first sep cs)"

definition split_second :: "string \<Rightarrow> string \<Rightarrow> string" where
  "split_second sep s = (case after_first sep s of None \<Rightarrow> [] | Some r \<Rightarrow> before_first sep r)"

definition MAIN_PROJECT_PATH :: string where
  "MAIN_PROJECT_PATH = ''d:/Projects/clients/mosamem/main''"

text \<open>\<^verbatim>\<open>p.replace(/\\/g, '/')\<close>\<close>

definition fix_slashes :: "string \<Rightarrow> string" where
  "fix_slashes p = map (\<lambda>c. if c = CHR 0x5C then CHR ''/'' else c) p"

text \<open>
  \<^verbatim>\<open>getLocalPath(url)\<close>: the path after \<^verbatim>\<open>/storage/\<close> (or \<^verbatim>\<open>storage/\<close>) looked up in the
  two storage directories of the main project.
\<close>

definition getLocalPath :: "world \<Rightarrow> string \<Rightarrow> string option" where
  "getLocalPath w url =
     (if url = [] then None
      else
        let relativePath =
              (if str_includes url ''/storage/'' then split_second ''/storage/'' url
               else if str_includes url ''storage/'' then split_second ''storage/'' url
               else [])
        in
          if relativePath \<noteq> [] then
            find (\<lambda>p. p \<in> files w)
              (map fix_slashes
                 [join (join (join (join MAIN_PROJECT_PATH ''storage'') ''app'') ''public'') relativePath,
                  join (join (join MAIN_PROJECT_PATH ''public'') ''storage'') relativePath])
          else None)"

text \<open>
  The loop body of \<^verbatim>\<open>processObjects\<close> in \<^verbatim>\<open>processDesignPaths\<close>, the assignments in
  the source's order: \<^verbatim>\<open>obj.src = localPath; obj.originalSrc = obj.src;\<close>
\<close>

definition processObject_cf :: "world \<Rightarrow> element \<Rightarrow> element" where
  "processObject_cf w obj =
     (case src obj of
        None \<Rightarrow> obj
      | Some s \<Rightarrow>
          if s = [] then obj
          else
            (case getLocalPath w s of
               None \<Rightarrow> obj
             | Some localPath \<Rightarrow>
                 if localPath = [] then obj
                 else
                   let obj1 = obj\<lparr>src := Some localPath\<rparr>;
                       obj2 = obj1\<lparr>originalSrc := src obj1\<rparr>
                   in obj2))"

definition processDesignPaths :: "world \<Rightarrow> design \<Rightarrow> design" where
  "processDesignPaths w d =
     d\<lparr>layers :=
          (case layers d of
             NoLayers \<Rightarrow> NoLayers
           | LayersJson None \<Rightarrow> LayersJson None
           | LayersJson (Some lo) \<Rightarrow> LayersJson (Some (map_option (map (processObject_cf w)) lo))
           | LayersObj lo \<Rightarrow> LayersObj (map_option (map (processObject_cf w)) lo)),
        objects := map_option (map (processObject_cf w)) (objects d)\<rparr>"

text \<open>
  The accuracy block of \<^verbatim>\<open>captureFrames.ts\<close> up to the call of the fallback; the
  result says whether the fallback ran and succeeded.
\<close>

definition fallbackCheck_cf ::
  "'a env_scheme \<Rightarrow> element list \<Rightarrow> string \<Rightarrow> real \<Rightarrow> nat \<Rightarrow> nat \<Rightarrow> world \<Rightarrow> bool \<times> world" where
  "fallbackCheck_cf e objs framesDir duration s f w =
     (if s + f > 0 then
        let accuracy = real s / real (s + f) * 100 in
        if accuracy < 50 then
          let videoPath =
                (case objs of
                   [obj] \<Rightarrow>
                     if is_video obj \<and> truthy (src obj) \<and> the (src obj) \<in> files w
                     then src obj else None
                 | _ \<Rightarrow> None)
          in
            if truthy videoPath \<and> accuracy < 20
            then extractVideoFramesWithFFmpeg e videoPath framesDir fps duration w
            else (False, w)
        else (False, w)
      else (False, w))"

text \<open>
  The upload block of \<^verbatim>\<open>captureFrames.ts\<close>: its own \<^verbatim>\<open>try\<close>/\<^verbatim>\<open>catch\<close> reports
  \<^verbatim>\<open>failed\<close> and rethrows; then the merged file is unlinked (a failure is logged).
  \<^verbatim>\<open>join(framesDir, '..', `${exportId}.mp4`)\<close> is the file beside the frames directory.
\<close>

definition uploadVideo_cf ::
  "'a env_scheme \<Rightarrow> string \<Rightarrow> string option \<Rightarrow> world \<Rightarrow> (error + unit) \<times> world" where
  "uploadVideo_cf e exportId webhookUrl w =
     (let videoPath = join (tmpdir e) (exportId @ ''.mp4'') in
      if videoPath \<in> files w then
        if \<not> readFile_ok e videoPath
        then (Inl ReadError, reportProgress webhookUrl 100 ''failed'' w)
        else
          let w1 = emit (Upload videoPath) w in
          (case upload_response e of
             UploadThrows \<Rightarrow> (Inl NetworkError, reportProgress webhookUrl 100 ''failed'' w1)
           | UploadResponse ok \<Rightarrow>
               if \<not> ok then (Inl UploadError, reportProgress webhookUrl 100 ''failed'' w1)
               else
                 let w2 = reportProgress webhookUrl 100 ''completed'' w1 in
                 if unlink_ok e videoPath
                 then (Inr (), emit (Unlink videoPath) (w2\<lparr>files := files w2 - {videoPath}\<rparr>))
                 else (Inr (), w2))
      else (Inr (), reportProgress webhookUrl 100 ''failed'' w))"

text \<open>The body of the \<^verbatim>\<open>try\<close> block of \<^verbatim>\<open>renderVideo\<close> in \<^verbatim>\<open>captureFrames.ts\<close>.\<close>

definition renderVideo_try_cf ::
  "'a env_scheme \<Rightarrow> element list \<Rightarrow> string option \<Rightarrow> real \<Rightarrow> string \<Rightarrow> string option \<Rightarrow> world
     \<Rightarrow> (error + unit) \<times> world" where
  "renderVideo_try_cf e objs audioPath duration exportId webhookUrl w =
     (let framesDir = join (tmpdir e) exportId in
      if \<not> surface_ready e then (Inl SurfaceError, w)
      else
        (case captureLoop_cf e framesDir webhookUrl (totalFrames duration) 0 0 0 w of
           (Inl err, w1) \<Rightarrow> (Inl err, w1)
         | (Inr (s, f), w1) \<Rightarrow>
             (case fallbackCheck_cf e objs framesDir duration s f w1 of
                (True, w2) \<Rightarrow> mergeVideo e framesDir audioPath exportId w2
              | (False, w2) \<Rightarrow>
                  (case mergeVideo e framesDir audioPath exportId
                          (reportProgress webhookUrl 90 ''merging_video'' w2) of
                     (Inl err, w3) \<Rightarrow> (Inl err, w3)
                   | (Inr u, w3) \<Rightarrow>
                       uploadVideo_cf e exportId webhookUrl
                         (reportProgress webhookUrl 95 ''uploading'' w3)))))"

text \<open>
  \<^verbatim>\<open>renderVideo\<close> of \<^verbatim>\<open>captureFrames.ts\<close>: directory, path mapping, audio, duration,
  browser launch and page creation all come before the \<^verbatim>\<open>try\<close>; the \<^verbatim>\<open>finally\<close> only
  closes the browser.
\<close>

definition renderVideo_cf ::
  "'a env_scheme \<Rightarrow> design \<Rightarrow> string \<Rightarrow> string option \<Rightarrow> world \<Rightarrow> (error + unit) \<times> world" where
  "renderVideo_cf e d exportId webhookUrl w =
     (let framesDir = join (tmpdir e) exportId in
      if framesDir \<notin> files w \<and> \<not> mkdir_ok e framesDir then (Inl MkdirError, w)
      else
        let w0 = (if framesDir \<notin> files w then mkdir_recursive framesDir w else w);
            localDesign = processDesignPaths w0 d;
            (audioPath, w1) = extractAudio e localDesign None w0
        in
          (case resolveDuration e localDesign audioPath w1 of
             Inl err \<Rightarrow> (Inl err, w1)
           | Inr duration \<Rightarrow>
               if \<not> launch_ok e then (Inl LaunchError, w1)
               else if \<not> newPage_ok e then (Inl SurfaceError, w1)
               else
                 let objs = (case designObjects localDesign of Inr os \<Rightarrow> os | Inl _ \<Rightarrow> []);
                     (r, w2) = renderVideo_try_cf e objs audioPath duration exportId webhookUrl w1;
                     w3 = emit BrowserClose w2
                 in if \<not> close_ok e then (Inl CloseError, w3) else (r, w3)))"

section \<open>Observations on traces, and concrete runs\<close>

text \<open>The indices of the frame files written, in the order of writing.\<close>

fun frame_indices :: "event list \<Rightarrow> nat list" where
  "frame_indices [] = []"
| "frame_indices (WriteFrame i p # evs) = i # frame_indices evs"
| "frame_indices (ev # evs) = frame_indices evs"

text \<open>The webhook reports with status \<^verbatim>\<open>failed\<close>.\<close>

fun is_failed_report :: "event \<Rightarrow> bool" where
  "is_failed_report (Progress p st) = (st = ''failed'')"
| "is_failed_report ev = False"

definition failed_reports :: "event list \<Rightarrow> event list" where
  "failed_reports evs = filter is_failed_report evs"

text \<open>Whether \<^verbatim>\<open>extractVideoFramesWithFFmpeg\<close> was called between two states of a run.\<close>

fun is_fallback_attempt :: "event \<Rightarrow> bool" where
  "is_fallback_attempt (FallbackAttempt vp) = True"
| "is_fallback_attempt ev = False"

definition fallback_invoked :: "world \<Rightarrow> world \<Rightarrow> bool" where
  "fallback_invoked w w' = list_ex is_fallback_attempt (drop (length (trace w)) (trace w'))"

text \<open>\<^verbatim>\<open>successes / (successes + failures)\<close>\<close>

definition successRatio :: "nat \<Rightarrow> nat \<Rightarrow> real" where
  "successRatio s f = real s / real (s + f)"

text \<open>A design with the \<^verbatim>\<open>muted\<close> flag of every object set to \<open>b\<close>.\<close>

definition with_muted :: "bool \<Rightarrow> design \<Rightarrow> design" where
  "with_muted b d =
     d\<lparr>layers :=
          (case layers d of
             NoLayers \<Rightarrow> NoLayers
           | LayersJson lo \<Rightarrow> LayersJson (map_option (map_option (map (\<lambda>obj. obj\<lparr>muted := b\<rparr>))) lo)
           | LayersObj lo \<Rightarrow> LayersObj (map_option (map (\<lambda>obj. obj\<lparr>muted := b\<rparr>)) lo)),
        objects := map_option (map (\<lambda>obj. obj\<lparr>muted := b\<rparr>)) (objects d)\<rparr>"

text \<open>A run on an empty disk, with collaborators that all succeed.\<close>

definition world0 :: world where
  "world0 = \<lparr>files = {}, trace = []\<rparr>"

definition ok_frame :: frame_obs where
  "ok_frame = \<lparr>seek_ok = True, video_times = [], capture = Some (Some ''data:image/png;base64,iVBORw0KGgo='')\<rparr>"

definition clip_url :: string where
  "clip_url = ''https://cdn.example.com/media/clip.mp4''"

definition env0 :: env where
  "env0 =
     \<lparr>tmpdir = ''/tmp'',
      md5hex = (\<lambda>u. if u = clip_url then ''1de7448b8977f4615a7dcb86f0e24603''
                     else ''8094c7a944a2d94c80e692d60dde9327''),
      extname = (\<lambda>u. if u = clip_url then ''.mp4'' else ''.png''),
      fetch_ok = (\<lambda>w u. True),
      writeFile_ok = (\<lambda>w p. True),
      mkdir_ok = (\<lambda>p. True),
      rm_ok = (\<lambda>p. True),
      unlink_ok = (\<lambda>p. True),
      readFile_ok = (\<lambda>p. True),
      ffprobe = (\<lambda>p. None),
      exec = (\<lambda>c fs. Some fs),
      launch_ok = True,
      newPage_ok = True,
      close_ok = True,
      surface_ready = True,
      frame = (\<lambda>i. ok_frame),
      upload_response = UploadResponse True\<rparr>"

text \<open>A video object with a remote source, and the design made of it alone.\<close>

definition clip :: element where
  "clip = \<lparr>customType = Some ''video'', type = Some ''image'', src = Some clip_url,
           originalSrc = None, muted = True\<rparr>"

definition clip_design :: design where
  "clip_design = \<lparr>layers = NoLayers, objects = Some [clip]\<rparr>"

text \<open>A network whose first fetch fails and whose later fetches succeed.\<close>

definition env_flaky :: env where
  "env_flaky = env0\<lparr>fetch_ok := (\<lambda>w u. trace w \<noteq> [])\<rparr>"

text \<open>An image already on the local disk.\<close>

definition local_logo :: element where
  "local_logo = \<lparr>customType = None, type = Some ''image'', src = Some ''file:///srv/logo.png'',
                 originalSrc = None, muted = False\<rparr>"

text \<open>A video served from the main project's storage, and a disk that holds its file.\<close>

definition storage_url :: string where
  "storage_url = ''http://localhost:8000/storage/videos/clip.mp4''"

definition storage_clip :: element where
  "storage_clip = clip\<lparr>src := Some storage_url\<rparr>"

definition storage_world :: world where
  "storage_world =
     \<lparr>files = {''d:/Projects/clients/mosamem/main/storage/app/public/videos/clip.mp4''}, trace = []\<rparr>"

text \<open>A video object without a source followed by one with a local source.\<close>

definition silent_clip :: element where
  "silent_clip = clip\<lparr>src := None\<rparr>"

definition local_clip :: element where
  "local_clip = clip\<lparr>src := Some ''/srv/media/clip.mp4''\<rparr>"

definition two_clips :: design where
  "two_clips = \<lparr>layers = NoLayers, objects = Some [silent_clip, local_clip]\<rparr>"

text \<open>A disk with a three-second video and a ten-second extracted audio track.\<close>

definition env_media :: env where
  "env_media = env0\<lparr>ffprobe := (\<lambda>p. if p = ''/srv/media/clip.mp4'' then Some 3
                                     else if p = ''/tmp/e1/audio.aac'' then Some 10 else None)\<rparr>"

definition media_world :: world where
  "media_world = \<lparr>files = {''/srv/media/clip.mp4'', ''/tmp/e1/audio.aac''}, trace = []\<rparr>"

definition local_design :: design where
  "local_design = \<lparr>layers = NoLayers, objects = Some [local_clip]\<rparr>"

text \<open>A video already at the target position, and one that never fires \<^verbatim>\<open>seeked\<close>.\<close>

definition settled_video :: video where
  "settled_video = \<lparr>currentTime = 1.02, seeked_after = Some 30\<rparr>"

definition stuck_video :: video where
  "stuck_video = \<lparr>currentTime = 0, seeked_after = None\<rparr>"

text \<open>A page whose capture of frame 1 returns a value that is not a string.\<close>

definition env_skip :: env where
  "env_skip = env0\<lparr>frame := (\<lambda>i. if i = 1 then ok_frame\<lparr>capture := Some None\<rparr> else ok_frame)\<rparr>"

text \<open>A video object without \<^verbatim>\<open>customType\<close>, its file on the local disk.\<close>

definition plain_video :: element where
  "plain_video = \<lparr>customType = None, type = Some ''video'', src = Some ''/srv/media/clip.mp4'',
                  originalSrc = None, muted = False\<rparr>"

text \<open>A design without objects.\<close>

definition empty_design :: design where
  "empty_design = \<lparr>layers = NoLayers, objects = None\<rparr>"

text \<open>
  An upload endpoint that answers with an error status, and a disk that already holds a
  merged file for the job at the two places where the variants look for it.
\<close>

definition env_upload_fails :: env where
  "env_upload_fails = env0\<lparr>upload_response := UploadResponse False\<rparr>"

definition stale_world :: world where
  "stale_world = \<lparr>files = {''/tmp/e1'', ''/tmp/e1/e1.mp4'', ''/tmp/e1.mp4''}, trace = []\<rparr>"

text \<open>The webhook of the job.\<close>

definition hook :: "string option" where
  "hook = Some ''http://localhost:8000/export/progress''"

text \<open>A machine on which the browser cannot be launched.\<close>

definition env_no_launch :: env where
  "env_no_launch = env0\<lparr>launch_ok := False\<rparr>"

section \<open>Properties\<close>

subsection \<open>Asset staging\<close>

lemma downloadAsset_not_remote:
  "\<not> startsWith url ''http'' \<Longrightarrow> downloadAsset e url assetsDir w = (url, w)"
  by (simp add: downloadAsset_def)

lemma processObject_not_remote:
  "(\<forall>s. src obj = Some s \<longrightarrow> \<not> startsWith s ''http'') \<Longrightarrow> processObject e assetsDir obj w = (obj, w)"
  by (auto simp: processObject_def downloadAsset_not_remote split: option.splits)

lemma processObjects_not_remote:
  "(\<forall>obj \<in> set objs. \<forall>s. src obj = Some s \<longrightarrow> \<not> startsWith s ''http'')
     \<Longrightarrow> processObjects e assetsDir objs w = (objs, w)"
  by (induction objs arbitrary: w) (simp_all add: processObject_not_remote)

text \<open>
  Claim C10. A source string that does not start with \<^verbatim>\<open>http\<close> (a local path, a
  \<^verbatim>\<open>file:\<close> URL, a data URI, the empty string) is returned unchanged by
  \<^verbatim>\<open>downloadAsset\<close>, and the world is the same afterwards: no fetch, no file written.
  Staging a list of objects whose sources are all of this kind returns the list as it was.
\<close>

theorem non_remote_sources_are_left_alone:
  "(\<not> startsWith url ''http'' \<longrightarrow> downloadAsset e url assetsDir w = (url, w)) \<and>
   ((\<forall>obj \<in> set objs. \<forall>s. src obj = Some s \<longrightarrow> \<not> startsWith s ''http'')
      \<longrightarrow> processObjects e assetsDir objs w = (objs, w))"
  using downloadAsset_not_remote processObjects_not_remote by blast

theorem non_remote_sources_are_left_alone_witness:
  "\<not> startsWith ''data:image/png;base64,AAAA'' ''http'' \<and>
   downloadAsset env0 ''data:image/png;base64,AAAA'' ''/tmp/e1/assets'' world0
     = (''data:image/png;base64,AAAA'', world0) \<and>
   src local_logo = Some ''file:///srv/logo.png'' \<and>
   \<not> startsWith ''file:///srv/logo.png'' ''http'' \<and>
   processObjects env0 ''/tmp/e1/assets'' [local_logo] world0 = ([local_logo], world0)"
  using non_remote_sources_are_left_alone
          [of "''data:image/png;base64,AAAA''" env0 "''/tmp/e1/assets''" world0 "[local_logo]"]
  by (simp add: startsWith_def local_logo_def)

text \<open>
  Claim C5, amended. When a staging call for a URL returns a path other than the URL
  (the download succeeded, or the file was already staged), that path is
  \<^verbatim>\<open>join(assetsDir, md5(url) + ext)\<close>, the file exists afterwards, and every later call for
  the same URL and assets directory, in any state where the file still exists, returns the
  same path and changes nothing: no fetch is made.
\<close>

theorem staging_again_after_success:
  assumes "downloadAsset e url assetsDir w = (p, w1)" and "p \<noteq> url"
  shows "p = asset_path e url assetsDir \<and> p \<in> files w1 \<and>
         (\<forall>w2. p \<in> files w2 \<longrightarrow> downloadAsset e url assetsDir w2 = (p, w2))"
  using assms
  by (auto simp: downloadAsset_def Let_def emit_def split: if_splits)

theorem staging_again_after_success_witness:
  "downloadAsset env0 clip_url ''/tmp/e1/assets'' world0
     = (''/tmp/e1/assets/1de7448b8977f4615a7dcb86f0e24603.mp4'',
        \<lparr>files = {''/tmp/e1/assets/1de7448b8977f4615a7dcb86f0e24603.mp4''},
         trace = [Fetch clip_url, WriteFile ''/tmp/e1/assets/1de7448b8977f4615a7dcb86f0e24603.mp4'']\<rparr>) \<and>
   ''/tmp/e1/assets/1de7448b8977f4615a7dcb86f0e24603.mp4'' \<noteq> clip_url \<and>
   downloadAsset env0 clip_url ''/tmp/e1/assets''
     \<lparr>files = {''/tmp/e1/assets/1de7448b8977f4615a7dcb86f0e24603.mp4''},
      trace = [Fetch clip_url, WriteFile ''/tmp/e1/assets/1de7448b8977f4615a7dcb86f0e24603.mp4'']\<rparr>
     = (''/tmp/e1/assets/1de7448b8977f4615a7dcb86f0e24603.mp4'',
        \<lparr>files = {''/tmp/e1/assets/1de7448b8977f4615a7dcb86f0e24603.mp4''},
         trace = [Fetch clip_url, WriteFile ''/tmp/e1/assets/1de7448b8977f4615a7dcb86f0e24603.mp4'']\<rparr>)"
proof -
  have first: "downloadAsset env0 clip_url ''/tmp/e1/assets'' world0
     = (''/tmp/e1/assets/1de7448b8977f4615a7dcb86f0e24603.mp4'',
        \<lparr>files = {''/tmp/e1/assets/1de7448b8977f4615a7dcb86f0e24603.mp4''},
         trace = [Fetch clip_url, WriteFile ''/tmp/e1/assets/1de7448b8977f4615a7dcb86f0e24603.mp4'']\<rparr>)"
    by (simp add: downloadAsset_def asset_path_def asset_ext_def split_first_def join_def
          env0_def world0_def clip_url_def startsWith_def emit_def Let_def)
  have ne: "''/tmp/e1/assets/1de7448b8977f4615a7dcb86f0e24603.mp4'' \<noteq> clip_url"
    by (simp add: clip_url_def)
  from staging_again_after_success [OF first ne] first ne show ?thesis by simp
qed

text \<open>
  Claim C5 as stated fails when the first download fails: the first call returns the
  remote URL itself, the second call fetches again and returns the local path.
\<close>

theorem staging_twice_counterexample:
  "downloadAsset env_flaky clip_url ''/tmp/e1/assets'' world0
     = (clip_url, \<lparr>files = {}, trace = [Fetch clip_url]\<rparr>) \<and>
   downloadAsset env_flaky clip_url ''/tmp/e1/assets'' \<lparr>files = {}, trace = [Fetch clip_url]\<rparr>
     = (''/tmp/e1/assets/1de7448b8977f4615a7dcb86f0e24603.mp4'',
        \<lparr>files = {''/tmp/e1/assets/1de7448b8977f4615a7dcb86f0e24603.mp4''},
         trace = [Fetch clip_url, Fetch clip_url,
                  WriteFile ''/tmp/e1/assets/1de7448b8977f4615a7dcb86f0e24603.mp4'']\<rparr>)"
  by (simp add: downloadAsset_def asset_path_def asset_ext_def split_first_def join_def
        env_flaky_def env0_def world0_def clip_url_def startsWith_def emit_def Let_def)

subsection \<open>The original reference of a staged object\<close>

lemma processObject_rewrite:
  "processObject e assetsDir obj w = (obj', w') \<Longrightarrow> src obj' \<noteq> src obj
     \<Longrightarrow> originalSrc obj' = src obj'"
  by (auto simp: processObject_def Let_def split: option.splits if_splits prod.splits)

lemma getLocalPath_storage:
  "getLocalPath storage_world storage_url
     = Some ''d:/Projects/clients/mosamem/main/storage/app/public/videos/clip.mp4''"
  by (simp add: getLocalPath_def storage_url_def storage_world_def split_second_def MAIN_PROJECT_PATH_def join_def fix_slashes_def)

text \<open>
  Claim C8. After a source is resolved to a local file, \<^verbatim>\<open>originalSrc\<close> holds the local
  path, not the remote reference: the assignment \<^verbatim>\<open>obj.originalSrc = obj.src\<close> runs after
  \<^verbatim>\<open>obj.src = localPath\<close>, in both variants. The run below stages one remote video.
\<close>

theorem original_reference_overwritten:
  "src (fst (processObject env0 ''/tmp/e1/assets'' clip world0))
      = Some ''/tmp/e1/assets/1de7448b8977f4615a7dcb86f0e24603.mp4'' \<and>
   originalSrc (fst (processObject env0 ''/tmp/e1/assets'' clip world0))
      = Some ''/tmp/e1/assets/1de7448b8977f4615a7dcb86f0e24603.mp4'' \<and>
   originalSrc (fst (processObject env0 ''/tmp/e1/assets'' clip world0)) \<noteq> src clip \<and>
   src (processObject_cf storage_world storage_clip)
      = Some ''d:/Projects/clients/mosamem/main/storage/app/public/videos/clip.mp4'' \<and>
   originalSrc (processObject_cf storage_world storage_clip)
      = Some ''d:/Projects/clients/mosamem/main/storage/app/public/videos/clip.mp4'' \<and>
   originalSrc (processObject_cf storage_world storage_clip) \<noteq> src storage_clip"
proof -
  have dl: "downloadAsset env0 clip_url ''/tmp/e1/assets'' world0
     = (''/tmp/e1/assets/1de7448b8977f4615a7dcb86f0e24603.mp4'',
        \<lparr>files = {''/tmp/e1/assets/1de7448b8977f4615a7dcb86f0e24603.mp4''},
         trace = [Fetch clip_url, WriteFile ''/tmp/e1/assets/1de7448b8977f4615a7dcb86f0e24603.mp4'']\<rparr>)"
    by (simp add: downloadAsset_def asset_path_def asset_ext_def split_first_def join_def
          env0_def world0_def clip_url_def startsWith_def emit_def Let_def)
  have a: "fst (processObject env0 ''/tmp/e1/assets'' clip world0)
     = clip\<lparr>src := Some ''/tmp/e1/assets/1de7448b8977f4615a7dcb86f0e24603.mp4'',
             originalSrc := Some ''/tmp/e1/assets/1de7448b8977f4615a7dcb86f0e24603.mp4''\<rparr>"
    by (simp add: processObject_def clip_def dl) (simp add: clip_url_def)
  have b: "processObject_cf storage_world storage_clip
     = storage_clip\<lparr>src := Some ''d:/Projects/clients/mosamem/main/storage/app/public/videos/clip.mp4'',
             originalSrc := Some ''d:/Projects/clients/mosamem/main/storage/app/public/videos/clip.mp4''\<rparr>"
    by (simp add: processObject_cf_def storage_clip_def clip_def getLocalPath_storage) (simp add: storage_url_def)
  show ?thesis
    unfolding a b by (simp add: clip_def clip_url_def storage_clip_def storage_url_def)
qed

subsection \<open>Audio extraction\<close>

lemma find_with_muted:
  "find is_video (map (\<lambda>obj. obj\<lparr>muted := b\<rparr>) objs)
     = map_option (\<lambda>obj. obj\<lparr>muted := b\<rparr>) (find is_video objs)"
  by (induction objs) (auto simp: is_video_def effective_type_def)

lemma audio_objects_with_muted:
  "audio_objects (with_muted b d) = map_option (map (\<lambda>obj. obj\<lparr>muted := b\<rparr>)) (audio_objects d)"
  by (auto simp: audio_objects_def with_muted_def split: layers_field.splits option.splits)

lemma extractAudio_muted:
  "extractAudio e (with_muted b d) outputDir w = extractAudio e d outputDir w"
  by (auto simp: extractAudio_def audio_objects_with_muted find_with_muted split: option.splits)

lemma extractAudio_no_video:
  "audio_objects d = Some objs \<Longrightarrow> find is_video objs = None \<Longrightarrow> extractAudio e d outputDir w = (None, w)"
  by (simp add: extractAudio_def)

lemma extractAudio_no_src:
  "audio_objects d = Some objs \<Longrightarrow> find is_video objs = Some v \<Longrightarrow> \<not> truthy (src v)
     \<Longrightarrow> extractAudio e d outputDir w = (None, w)"
  by (simp add: extractAudio_def truthy_def split: option.splits)

lemma extractAudio_src:
  "audio_objects d = Some objs \<Longrightarrow> find is_video objs = Some v \<Longrightarrow> src v = Some s \<Longrightarrow> s \<noteq> []
     \<Longrightarrow> out = join (if truthy outputDir then the outputDir else tmpdir e) ''audio.aac''
     \<Longrightarrow> trace (snd (extractAudio e d outputDir w)) = trace w @ [Exec (AudioCopy s out)] \<and>
         fst (extractAudio e d outputDir w)
           = (if exec e (AudioCopy s out) (files w) = None then None else Some out)"
  by (simp add: extractAudio_def emit_def Let_def split: option.splits)

text \<open>
  Claim C9, amended. \<^verbatim>\<open>extractAudio\<close> looks at the first video object of the list only
  (\<^verbatim>\<open>customType || type\<close> equal to \<^verbatim>\<open>video\<close>). Without a video object, or when that first
  video object has no source, it returns \<^verbatim>\<open>null\<close> and runs nothing. When the first video
  object has a source, \<^verbatim>\<open>ffmpeg\<close> is run once on that source, and the result is the audio
  path, or \<^verbatim>\<open>null\<close> when \<^verbatim>\<open>ffmpeg\<close> fails. The \<^verbatim>\<open>muted\<close> flags have no influence.
\<close>

theorem audio_from_first_video:
  assumes "audio_objects d = Some objs"
  shows "(find is_video objs = None \<longrightarrow> extractAudio e d outputDir w = (None, w)) \<and>
         (\<forall>v. find is_video objs = Some v \<and> \<not> truthy (src v) \<longrightarrow> extractAudio e d outputDir w = (None, w)) \<and>
         (\<forall>v s out. find is_video objs = Some v \<and> src v = Some s \<and> s \<noteq> [] \<and>
              out = join (if truthy outputDir then the outputDir else tmpdir e) ''audio.aac'' \<longrightarrow>
            trace (snd (extractAudio e d outputDir w)) = trace w @ [Exec (AudioCopy s out)] \<and>
            fst (extractAudio e d outputDir w)
              = (if exec e (AudioCopy s out) (files w) = None then None else Some out)) \<and>
         extractAudio e (with_muted b d) outputDir w = extractAudio e d outputDir w"
  using assms extractAudio_no_video [of d objs e outputDir w]
    extractAudio_no_src [of d objs _ e outputDir w]
    extractAudio_src [of d objs _ _ _ outputDir e w]
    extractAudio_muted [of e b d outputDir w]
  by blast

text \<open>
  Claim C9 as stated fails on a list whose first video object has no source and whose
  second has one: there is a video object with a playable source, and nothing is
  extracted.
\<close>

theorem audio_first_playable_counterexample:
  "audio_objects two_clips = Some [silent_clip, local_clip] \<and>
   is_video local_clip \<and> src local_clip = Some ''/srv/media/clip.mp4'' \<and>
   extractAudio env0 two_clips (Some ''/tmp/e1'') world0 = (None, world0)"
  by (simp add: audio_objects_def two_clips_def silent_clip_def local_clip_def clip_def is_video_def
        effective_type_def truthy_def extractAudio_def)

theorem audio_from_first_video_witness:
  "audio_objects clip_design = Some [clip] \<and>
   find is_video [clip] = Some clip \<and> src clip = Some clip_url \<and> clip_url \<noteq> [] \<and>
   trace (snd (extractAudio env0 clip_design (Some ''/tmp/e1'') world0))
     = trace world0 @ [Exec (AudioCopy clip_url ''/tmp/e1/audio.aac'')] \<and>
   fst (extractAudio env0 clip_design (Some ''/tmp/e1'') world0) = Some ''/tmp/e1/audio.aac'' \<and>
   extractAudio env0 (with_muted False clip_design) (Some ''/tmp/e1'') world0
     = extractAudio env0 clip_design (Some ''/tmp/e1'') world0"
proof -
  have ao: "audio_objects clip_design = Some [clip]"
    by (simp add: audio_objects_def clip_design_def)
  have fv: "find is_video [clip] = Some clip"
    by (simp add: is_video_def effective_type_def truthy_def clip_def)
  have sc: "src clip = Some clip_url" "clip_url \<noteq> []"
    by (simp_all add: clip_def clip_url_def)
  have ex: "exec env0 (AudioCopy clip_url ''/tmp/e1/audio.aac'') (files world0) \<noteq> None"
    by (simp add: env0_def)
  have out: "''/tmp/e1/audio.aac'' = join (if truthy (Some ''/tmp/e1'') then the (Some ''/tmp/e1'') else tmpdir env0) ''audio.aac''"
    by (simp add: join_def truthy_def)
  from audio_from_first_video [OF ao, of env0 "Some ''/tmp/e1''" world0 False] ao fv sc ex out
  show ?thesis by auto
qed

subsection \<open>Export duration\<close>

lemma checkObjectsDuration_fold:
  "checkObjectsDuration e w objs m
     = fold max (map (\<lambda>obj. getMediaDuration e (the (src obj))) (filter (local_video w) objs)) m"
  by (induction objs arbitrary: m) (auto simp: Let_def max_def)

lemma checkObjectsDuration_Max:
  "checkObjectsDuration e w objs m
     = Max (insert m ((\<lambda>obj. getMediaDuration e (the (src obj))) ` {obj \<in> set objs. local_video w obj}))"
proof -
  have "Max (set (m # map (\<lambda>obj. getMediaDuration e (the (src obj))) (filter (local_video w) objs)))
          = fold max (map (\<lambda>obj. getMediaDuration e (the (src obj))) (filter (local_video w) objs)) m"
    by (rule Max.set_eq_fold)
  then show ?thesis
    by (simp add: checkObjectsDuration_fold)
qed

lemma finalDuration_Max:
  assumes "finite A"
  shows "finalDuration (Max (insert 0 A)) a = Max (insert 5 (insert a A))"
proof (cases "A = {}")
  case True
  then show ?thesis by (simp add: finalDuration_def max_def)
next
  case False
  with assms have l: "Max (insert 0 A) = max 0 (Max A)"
    by simp
  from False assms have r: "Max (insert 5 (insert a A)) = max 5 (max a (Max A))"
    by simp
  show ?thesis
    unfolding l r finalDuration_def by linarith
qed

text \<open>
  Claim C1. When the object list of the staged design can be read, the duration that
  \<^verbatim>\<open>renderVideo\<close> resolves is the maximum of \<open>5\<close>, the audio duration and the probed
  durations of the video objects whose source file exists; it is never below \<open>5\<close>; and
  the audio duration is \<open>0\<close> when no audio was extracted or its file is absent.
\<close>

theorem export_duration_is_max:
  assumes "designObjects localDesign = Inr objs"
  shows "resolveDuration e localDesign audioPath w
           = Inr (Max (insert 5 (insert (audioDuration e audioPath w)
                    ((\<lambda>obj. getMediaDuration e (the (src obj))) ` {obj \<in> set objs. local_video w obj})))) \<and>
         (\<exists>d. resolveDuration e localDesign audioPath w = Inr d \<and> 5 \<le> d) \<and>
         (audioPath = None \<or> the audioPath \<notin> files w \<longrightarrow> audioDuration e audioPath w = 0)"
proof -
  have fin: "finite ((\<lambda>obj. getMediaDuration e (the (src obj))) ` {obj \<in> set objs. local_video w obj})"
    by simp
  have eq: "resolveDuration e localDesign audioPath w
           = Inr (Max (insert 5 (insert (audioDuration e audioPath w)
                    ((\<lambda>obj. getMediaDuration e (the (src obj))) ` {obj \<in> set objs. local_video w obj}))))"
    using assms finalDuration_Max [OF fin]
    by (simp add: resolveDuration_def checkObjectsDuration_Max)
  have ge: "5 \<le> finalDuration x y" for x y
    by (simp add: finalDuration_def)
  have "\<exists>d. resolveDuration e localDesign audioPath w = Inr d \<and> 5 \<le> d"
    using assms ge by (simp add: resolveDuration_def)
  moreover have "audioPath = None \<or> the audioPath \<notin> files w \<longrightarrow> audioDuration e audioPath w = 0"
    by (auto simp: audioDuration_def truthy_def)
  ultimately show ?thesis using eq by blast
qed

theorem export_duration_is_max_witness:
  "designObjects local_design = Inr [local_clip] \<and>
   resolveDuration env_media local_design (Some ''/tmp/e1/audio.aac'') media_world = Inr 10 \<and>
   audioDuration env_media (Some ''/tmp/e1/audio.aac'') media_world = 10 \<and>
   getMediaDuration env_media ''/srv/media/clip.mp4'' = 3"
proof -
  have d: "designObjects local_design = Inr [local_clip]"
    by (simp add: designObjects_def local_design_def)
  have a: "audioDuration env_media (Some ''/tmp/e1/audio.aac'') media_world = 10"
    by (simp add: audioDuration_def truthy_def media_world_def getMediaDuration_def env_media_def)
  have v: "getMediaDuration env_media ''/srv/media/clip.mp4'' = 3"
    by (simp add: getMediaDuration_def env_media_def)
  have lv: "local_video media_world local_clip"
    by (simp add: local_video_def is_video_def effective_type_def truthy_def local_clip_def
          clip_def media_world_def)
  have s: "the (src local_clip) = ''/srv/media/clip.mp4''"
    by (simp add: local_clip_def)
  have img: "(\<lambda>obj. getMediaDuration env_media (the (src obj)))
               ` {obj \<in> set [local_clip]. local_video media_world obj} = {3}"
    using lv s v by auto
  from export_duration_is_max [OF d, of env_media "Some ''/tmp/e1/audio.aac''" media_world]
  have "resolveDuration env_media local_design (Some ''/tmp/e1/audio.aac'') media_world
          = Inr (Max (insert 5 (insert (audioDuration env_media (Some ''/tmp/e1/audio.aac'') media_world)
               ((\<lambda>obj. getMediaDuration env_media (the (src obj)))
                  ` {obj \<in> set [local_clip]. local_video media_world obj}))))"
    by blast
  then have "resolveDuration env_media local_design (Some ''/tmp/e1/audio.aac'') media_world = Inr 10"
    unfolding img a by simp
  with d a v show ?thesis by simp
qed

subsection \<open>Seeking\<close>

lemma fold_max_le:
  "(\<And>x. x \<in> set xs \<Longrightarrow> x \<le> b) \<Longrightarrow> m \<le> b \<Longrightarrow> fold max xs m \<le> (b::nat)"
  by (induction xs arbitrary: m) auto

lemma wait_ms_seekPromise: "wait_ms (seekPromise time v) \<le> 2000"
  by (simp add: wait_ms_def seekPromise_def split: option.splits)

text \<open>
  Claim C7. The promise made for one media element resolves at once when the element is
  within \<open>0.05\<close> of the target time; otherwise it stays pending and resolves after at
  most \<open>2000\<close> milliseconds, whether or not \<^verbatim>\<open>seeked\<close> ever fires; so the whole call
  resolves within \<open>2000\<close> milliseconds.
\<close>

theorem seek_waits_at_most_two_seconds:
  "(\<bar>currentTime v - time\<bar> < 0.05 \<longrightarrow> seekPromise time v = Immediately) \<and>
   (\<not> \<bar>currentTime v - time\<bar> < 0.05 \<longrightarrow> (\<exists>d. seekPromise time v = After d \<and> d \<le> 2000)) \<and>
   seek_video time videos \<le> 2000"
proof -
  have "seek_video time videos \<le> 2000"
    unfolding seek_video_def
    by (rule fold_max_le) (auto simp: wait_ms_seekPromise)
  then show ?thesis
    by (auto simp: seekPromise_def split: option.splits)
qed

theorem seek_waits_at_most_two_seconds_witness:
  "\<bar>currentTime settled_video - 1\<bar> < 0.05 \<and> seekPromise 1 settled_video = Immediately \<and>
   \<not> \<bar>currentTime stuck_video - 1\<bar> < 0.05 \<and> seekPromise 1 stuck_video = After 2000 \<and>
   seek_video 1 [settled_video, stuck_video] = 2000"
  using seek_waits_at_most_two_seconds [of settled_video 1 "[settled_video, stuck_video]"]
    seek_waits_at_most_two_seconds [of stuck_video 1 "[]"]
  by (simp add: settled_video_def stuck_video_def seekPromise_def seek_video_def wait_ms_def)

subsection \<open>The capture loop of each variant\<close>

lemma frame_indices_append: "frame_indices (xs @ ys) = frame_indices xs @ frame_indices ys"
  by (induction xs rule: frame_indices.induct) simp_all

lemma frame_indices_reportProgress:
  "frame_indices (trace (reportProgress wh p st w)) = frame_indices (trace w)"
  by (simp add: reportProgress_def emit_def frame_indices_append)

lemma files_reportProgress: "files (reportProgress wh p st w) = files w"
  by (simp add: reportProgress_def emit_def)

lemma captureFrame_Inr:
  assumes "captureFrame e dir wh n i s f w = (Inr sf, w1)"
  shows "frame_indices (trace w1) = frame_indices (trace w) @ [i]"
    and "files w1 = insert (join dir (frame_name i)) (files w)"
  using assms
  by (auto simp: captureFrame_def Let_def emit_def frame_indices_append frame_indices_reportProgress
        files_reportProgress split: if_splits option.splits)

lemma captureFrame_ok:
  assumes "seek_ok (frame e i)" and "capture (frame e i) = Some v" and "decodable v"
    and "\<And>w p. writeFile_ok e w p"
  shows "\<not> isl (fst (captureFrame e dir wh n i s f w))"
  using assms by (simp add: captureFrame_def Let_def)

lemma captureLoop_unfold:
  "i < n \<Longrightarrow> captureFrame e dir wh n i s f w = (Inr (s1, f1), w1)
     \<Longrightarrow> captureLoop e dir wh n i s f w = captureLoop e dir wh n (i + 1) s1 f1 w1"
  by (simp add: captureLoop.simps)

lemma captureLoop_stop:
  "i < n \<Longrightarrow> captureFrame e dir wh n i s f w = (Inl err, w1)
     \<Longrightarrow> captureLoop e dir wh n i s f w = (Inl err, w1)"
  by (simp add: captureLoop.simps)

lemma captureLoop_done:
  "\<not> i < n \<Longrightarrow> captureLoop e dir wh n i s f w = (Inr (s, f), w)"
  by (simp add: captureLoop.simps)

lemma captureLoop_invariant:
  assumes "I i w"
    and "\<And>i s f w s1 f1 w1. i < n \<Longrightarrow> I i w
           \<Longrightarrow> captureFrame e dir wh n i s f w = (Inr (s1, f1), w1) \<Longrightarrow> I (i + 1) w1"
    and "\<And>i s f w err w1. i < n \<Longrightarrow> I i w
           \<Longrightarrow> captureFrame e dir wh n i s f w = (Inl err, w1) \<Longrightarrow> E err w1"
  shows "case captureLoop e dir wh n i s f w of
           (Inl err, w') \<Rightarrow> E err w'
         | (Inr sf, w') \<Rightarrow> I (if i < n then n else i) w'"
  using assms
proof (induction e dir wh n i s f w rule: captureLoop.induct)
  case (1 e dir wh n i s f w)
  note inv = "1.prems"(1) and stepI = "1.prems"(2) and stepE = "1.prems"(3)
  show ?case
  proof (cases "i < n")
    case False
    with inv show ?thesis by (simp add: captureLoop_done)
  next
    case True
    obtain r w1 where step: "captureFrame e dir wh n i s f w = (r, w1)"
      by (cases "captureFrame e dir wh n i s f w")
    show ?thesis
    proof (cases r)
      case (Inl err)
      with True step inv stepE [of i w s f err w1] show ?thesis
        by (simp add: captureLoop_stop)
    next
      case (Inr sf)
      obtain s1 f1 where sf: "sf = (s1, f1)" by (cases sf)
      from True step Inr sf
      have u: "captureLoop e dir wh n i s f w = captureLoop e dir wh n (i + 1) s1 f1 w1"
        by (simp add: captureLoop_unfold)
      from True step Inr sf inv stepI [of i w s f s1 f1 w1]
      have next_inv: "I (i + 1) w1" by simp
      have rec: "case captureLoop e dir wh n (i + 1) s1 f1 w1 of
              (Inl err, w') \<Rightarrow> E err w'
            | (Inr sf, w') \<Rightarrow> I (if i + 1 < n then n else i + 1) w'"
        by (rule "1.IH" [OF True step [symmetric] Inr sf [symmetric] next_inv])
           (fact stepI, fact stepE)
      from True have k: "(if i + 1 < n then n else i + 1) = n" by simp
      from rec have "case captureLoop e dir wh n (i + 1) s1 f1 w1 of
              (Inl err, w') \<Rightarrow> E err w'
            | (Inr sf, w') \<Rightarrow> I n w'"
        unfolding k .
      with u True show ?thesis by simp
    qed
  qed
qed

lemma captureLoop_frames:
  assumes "\<not> isl (fst (captureLoop e dir wh n i s f w))"
  shows "frame_indices (trace (snd (captureLoop e dir wh n i s f w)))
           = frame_indices (trace w) @ [i..<n]"
proof -
  have "case captureLoop e dir wh n i s f w of
           (Inl err, w') \<Rightarrow> True
         | (Inr sf, w') \<Rightarrow>
             i \<le> (if i < n then n else i) \<and>
             frame_indices (trace w') = frame_indices (trace w) @ [i..<(if i < n then n else i)]"
    by (rule captureLoop_invariant
          [where I = "\<lambda>k w'. i \<le> k \<and> frame_indices (trace w') = frame_indices (trace w) @ [i..<k]"
             and E = "\<lambda>err w'. True"])
       (auto dest: captureFrame_Inr(1))
  with assms show ?thesis
    by (cases "captureLoop e dir wh n i s f w") (auto split: sum.splits)
qed

lemma captureLoop_files:
  assumes "\<not> isl (fst (captureLoop e dir wh n i s f w))" and "i \<le> k" and "k < n"
  shows "join dir (frame_name k) \<in> files (snd (captureLoop e dir wh n i s f w))"
proof -
  have "case captureLoop e dir wh n i s f w of
           (Inl err, w') \<Rightarrow> True
         | (Inr sf, w') \<Rightarrow>
             (\<forall>j. i \<le> j \<and> j < (if i < n then n else i) \<longrightarrow> join dir (frame_name j) \<in> files w')"
  proof (rule captureLoop_invariant
          [where I = "\<lambda>m w'. \<forall>j. i \<le> j \<and> j < m \<longrightarrow> join dir (frame_name j) \<in> files w'"
             and E = "\<lambda>err w'. True"], goal_cases)
    case 1
    show ?case by auto
  next
    case (2 i' s f w s1 f1 w1)
    from captureFrame_Inr(2) [OF 2(3)] 2(2) show ?case
      by (auto simp: less_Suc_eq)
  next
    case 3
    show ?case by simp
  qed
  with assms show ?thesis
    by (cases "captureLoop e dir wh n i s f w") (auto split: sum.splits)
qed

lemma captureLoop_returns:
  assumes "\<And>k. seek_ok (frame e k) \<and> (\<exists>v. capture (frame e k) = Some v \<and> decodable v)"
    and "\<And>w p. writeFile_ok e w p"
  shows "\<not> isl (fst (captureLoop e dir wh n i s f w))"
proof -
  have "case captureLoop e dir wh n i s f w of
           (Inl err, w') \<Rightarrow> False
         | (Inr sf, w') \<Rightarrow> True"
  proof (rule captureLoop_invariant [where I = "\<lambda>k w'. True" and E = "\<lambda>err w'. False"], goal_cases)
    case (3 i' s f w err w1)
    from assms(1) [of i'] obtain v where
      "seek_ok (frame e i')" "capture (frame e i') = Some v" "decodable v" by blast
    from captureFrame_ok [OF this assms(2), of dir wh n s f w] 3(3) show ?case by simp
  qed simp_all
  then show ?thesis
    by (cases "captureLoop e dir wh n i s f w") (auto split: sum.splits)
qed

lemma captureFrame_cf_Inr:
  assumes "captureFrame_cf e dir wh n i s f w = (Inr sf, w1)"
  shows "frame_indices (trace w1)
           = frame_indices (trace w) @ (if valid_dataUrl (the (capture (frame e i))) then [i] else [])"
  using assms
  by (auto simp: captureFrame_cf_def Let_def emit_def frame_indices_append frame_indices_reportProgress
        split: if_splits option.splits)

lemma captureFrame_cf_ok:
  assumes "seek_ok (frame e i)" and "capture (frame e i) = Some v"
    and "valid_dataUrl v \<longrightarrow> decodable v" and "\<And>w p. writeFile_ok e w p"
  shows "\<not> isl (fst (captureFrame_cf e dir wh n i s f w))"
  using assms by (simp add: captureFrame_cf_def Let_def)

lemma captureLoop_cf_unfold:
  "i < n \<Longrightarrow> captureFrame_cf e dir wh n i s f w = (Inr (s1, f1), w1)
     \<Longrightarrow> captureLoop_cf e dir wh n i s f w = captureLoop_cf e dir wh n (i + 1) s1 f1 w1"
  by (simp add: captureLoop_cf.simps)

lemma captureLoop_cf_stop:
  "i < n \<Longrightarrow> captureFrame_cf e dir wh n i s f w = (Inl err, w1)
     \<Longrightarrow> captureLoop_cf e dir wh n i s f w = (Inl err, w1)"
  by (simp add: captureLoop_cf.simps)

lemma captureLoop_cf_done:
  "\<not> i < n \<Longrightarrow> captureLoop_cf e dir wh n i s f w = (Inr (s, f), w)"
  by (simp add: captureLoop_cf.simps)

lemma captureLoop_cf_invariant:
  assumes "I i w"
    and "\<And>i s f w s1 f1 w1. i < n \<Longrightarrow> I i w
           \<Longrightarrow> captureFrame_cf e dir wh n i s f w = (Inr (s1, f1), w1) \<Longrightarrow> I (i + 1) w1"
    and "\<And>i s f w err w1. i < n \<Longrightarrow> I i w
           \<Longrightarrow> captureFrame_cf e dir wh n i s f w = (Inl err, w1) \<Longrightarrow> E err w1"
  shows "case captureLoop_cf e dir wh n i s f w of
           (Inl err, w') \<Rightarrow> E err w'
         | (Inr sf, w') \<Rightarrow> I (if i < n then n else i) w'"
  using assms
proof (induction e dir wh n i s f w rule: captureLoop_cf.induct)
  case (1 e dir wh n i s f w)
  note inv = "1.prems"(1) and stepI = "1.prems"(2) and stepE = "1.prems"(3)
  show ?case
  proof (cases "i < n")
    case False
    with inv show ?thesis by (simp add: captureLoop_cf_done)
  next
    case True
    obtain r w1 where step: "captureFrame_cf e dir wh n i s f w = (r, w1)"
      by (cases "captureFrame_cf e dir wh n i s f w")
    show ?thesis
    proof (cases r)
      case (Inl err)
      with True step inv stepE [of i w s f err w1] show ?thesis
        by (simp add: captureLoop_cf_stop)
    next
      case (Inr sf)
      obtain s1 f1 where sf: "sf = (s1, f1)" by (cases sf)
      from True step Inr sf
      have u: "captureLoop_cf e dir wh n i s f w = captureLoop_cf e dir wh n (i + 1) s1 f1 w1"
        by (simp add: captureLoop_cf_unfold)
      from True step Inr sf inv stepI [of i w s f s1 f1 w1]
      have next_inv: "I (i + 1) w1" by simp
      have rec: "case captureLoop_cf e dir wh n (i + 1) s1 f1 w1 of
              (Inl err, w') \<Rightarrow> E err w'
            | (Inr sf, w') \<Rightarrow> I (if i + 1 < n then n else i + 1) w'"
        by (rule "1.IH" [OF True step [symmetric] Inr sf [symmetric] next_inv])
           (fact stepI, fact stepE)
      from True have k: "(if i + 1 < n then n else i + 1) = n" by simp
      from rec have "case captureLoop_cf e dir wh n (i + 1) s1 f1 w1 of
              (Inl err, w') \<Rightarrow> E err w'
            | (Inr sf, w') \<Rightarrow> I n w'"
        unfolding k .
      with u True show ?thesis by simp
    qed
  qed
qed

lemma captureLoop_cf_frames:
  assumes "\<not> isl (fst (captureLoop_cf e dir wh n i s f w))"
  shows "frame_indices (trace (snd (captureLoop_cf e dir wh n i s f w)))
           = frame_indices (trace w) @ filter (\<lambda>k. valid_dataUrl (the (capture (frame e k)))) [i..<n]"
proof -
  have "case captureLoop_cf e dir wh n i s f w of
           (Inl err, w') \<Rightarrow> True
         | (Inr sf, w') \<Rightarrow>
             i \<le> (if i < n then n else i) \<and>
             frame_indices (trace w')
               = frame_indices (trace w) @
                   filter (\<lambda>k. valid_dataUrl (the (capture (frame e k)))) [i..<(if i < n then n else i)]"
    by (rule captureLoop_cf_invariant
          [where I = "\<lambda>m w'. i \<le> m \<and> frame_indices (trace w')
                         = frame_indices (trace w) @
                             filter (\<lambda>k. valid_dataUrl (the (capture (frame e k)))) [i..<m]"
             and E = "\<lambda>err w'. True"])
       (auto dest: captureFrame_cf_Inr)
  with assms show ?thesis
    by (cases "captureLoop_cf e dir wh n i s f w") (auto split: sum.splits)
qed

lemma captureLoop_cf_returns:
  assumes "\<And>k. seek_ok (frame e k) \<and>
              (\<exists>v. capture (frame e k) = Some v \<and> (valid_dataUrl v \<longrightarrow> decodable v))"
    and "\<And>w p. writeFile_ok e w p"
  shows "\<not> isl (fst (captureLoop_cf e dir wh n i s f w))"
proof -
  have "case captureLoop_cf e dir wh n i s f w of
           (Inl err, w') \<Rightarrow> False
         | (Inr sf, w') \<Rightarrow> True"
  proof (rule captureLoop_cf_invariant [where I = "\<lambda>k w'. True" and E = "\<lambda>err w'. False"], goal_cases)
    case (3 i' s f w err w1)
    from assms(1) [of i'] obtain v where
      "seek_ok (frame e i')" "capture (frame e i') = Some v" "valid_dataUrl v \<longrightarrow> decodable v"
      by blast
    from captureFrame_cf_ok [OF this assms(2), of dir wh n s f w] 3(3) show ?case by simp
  qed simp_all
  then show ?thesis
    by (cases "captureLoop_cf e dir wh n i s f w") (auto split: sum.splits)
qed

lemma totalFrames_5: "totalFrames 5 = 120"
  by (simp add: totalFrames_def fps_def)

lemma ok_frame_facts:
  "seek_ok ok_frame" "capture ok_frame = Some (Some ''data:image/png;base64,iVBORw0KGgo='')"
  "decodable (Some ''data:image/png;base64,iVBORw0KGgo='')"
  "valid_dataUrl (Some ''data:image/png;base64,iVBORw0KGgo='')"
  "\<not> valid_dataUrl None"
  by (simp_all add: ok_frame_def decodable_def valid_dataUrl_def)

text \<open>
  Claim C2, amended. \<^verbatim>\<open>totalFrames\<close> is \<open>floor (duration * 24)\<close>. When the loop of
  \<^verbatim>\<open>part_001\<close> ends without an exception, the frame files written during it are those
  of the indices \<open>0, \<dots>, totalFrames - 1\<close>, each once and in this order, and all of
  them exist. When the loop of \<^verbatim>\<open>captureFrames.ts\<close> ends without an exception, the
  frames written are, in order and each once, those indices below \<open>totalFrames\<close> whose
  capture passed the data-URL guard; the others were skipped by \<^verbatim>\<open>continue\<close>.
\<close>

theorem frames_written_by_capture_loop:
  "(\<not> isl (fst (captureLoop e dir wh (totalFrames duration) 0 0 0 w)) \<longrightarrow>
      frame_indices (trace (snd (captureLoop e dir wh (totalFrames duration) 0 0 0 w)))
        = frame_indices (trace w) @ [0..<totalFrames duration] \<and>
      (\<forall>k<totalFrames duration.
         join dir (frame_name k) \<in> files (snd (captureLoop e dir wh (totalFrames duration) 0 0 0 w)))) \<and>
   (\<not> isl (fst (captureLoop_cf e dir wh (totalFrames duration) 0 0 0 w)) \<longrightarrow>
      frame_indices (trace (snd (captureLoop_cf e dir wh (totalFrames duration) 0 0 0 w)))
        = frame_indices (trace w) @
            filter (\<lambda>k. valid_dataUrl (the (capture (frame e k)))) [0..<totalFrames duration]) \<and>
   totalFrames duration = nat \<lfloor>duration * 24\<rfloor>"
  using captureLoop_frames [of e dir wh "totalFrames duration" 0 0 0 w]
    captureLoop_files [of e dir wh "totalFrames duration" 0 0 0 w]
    captureLoop_cf_frames [of e dir wh "totalFrames duration" 0 0 0 w]
  by (simp add: totalFrames_def fps_def)

theorem frames_written_by_capture_loop_witness:
  "\<not> isl (fst (captureLoop env0 ''/tmp/e1/frames'' None (totalFrames 5) 0 0 0 world0)) \<and>
   frame_indices (trace (snd (captureLoop env0 ''/tmp/e1/frames'' None (totalFrames 5) 0 0 0 world0)))
     = [0..<totalFrames 5] \<and>
   \<not> isl (fst (captureLoop_cf env_skip ''/tmp/e1'' None (totalFrames 5) 0 0 0 world0)) \<and>
   frame_indices (trace (snd (captureLoop_cf env_skip ''/tmp/e1'' None (totalFrames 5) 0 0 0 world0)))
     = filter (\<lambda>k. k \<noteq> 1) [0..<totalFrames 5] \<and>
   totalFrames 5 = 120"
proof -
  have r: "\<not> isl (fst (captureLoop env0 ''/tmp/e1/frames'' None (totalFrames 5) 0 0 0 world0))"
    by (rule captureLoop_returns) (simp_all add: env0_def ok_frame_facts)
  have rcf: "\<not> isl (fst (captureLoop_cf env_skip ''/tmp/e1'' None (totalFrames 5) 0 0 0 world0))"
    by (rule captureLoop_cf_returns) (simp_all add: env_skip_def env0_def ok_frame_facts)
  have v: "valid_dataUrl (the (capture (frame env_skip k))) = (k \<noteq> 1)" for k
    by (simp add: env_skip_def env0_def ok_frame_facts)
  have t: "frame_indices (trace world0) = []"
    by (simp add: world0_def)
  from frames_written_by_capture_loop [of env0 "''/tmp/e1/frames''" None 5 world0] r
  have "frame_indices (trace (snd (captureLoop env0 ''/tmp/e1/frames'' None (totalFrames 5) 0 0 0 world0)))
     = frame_indices (trace world0) @ [0..<totalFrames 5]"
    by blast
  then have a: "frame_indices (trace (snd (captureLoop env0 ''/tmp/e1/frames'' None (totalFrames 5) 0 0 0 world0)))
     = [0..<totalFrames 5]"
    unfolding t by simp
  from frames_written_by_capture_loop [of env_skip "''/tmp/e1''" None 5 world0] rcf
  have "frame_indices (trace (snd (captureLoop_cf env_skip ''/tmp/e1'' None (totalFrames 5) 0 0 0 world0)))
     = frame_indices (trace world0) @
         filter (\<lambda>k. valid_dataUrl (the (capture (frame env_skip k)))) [0..<totalFrames 5]"
    by blast
  then have b: "frame_indices (trace (snd (captureLoop_cf env_skip ''/tmp/e1'' None (totalFrames 5) 0 0 0 world0)))
     = filter (\<lambda>k. k \<noteq> 1) [0..<totalFrames 5]"
    unfolding v t by simp
  from r rcf a b totalFrames_5 show ?thesis by blast
qed

text \<open>
  Claim C2 as stated fails in \<^verbatim>\<open>captureFrames.ts\<close>: with five seconds to export
  (120 frames) and a capture of frame 1 that is not a string, the loop ends normally and
  no file for index 1 was written.
\<close>

theorem frame_skipped_counterexample:
  "\<not> isl (fst (captureLoop_cf env_skip ''/tmp/e1'' None (totalFrames 5) 0 0 0 world0)) \<and>
   1 < totalFrames 5 \<and>
   1 \<notin> set (frame_indices (trace (snd (captureLoop_cf env_skip ''/tmp/e1'' None (totalFrames 5) 0 0 0 world0))))"
proof -
  have rcf: "\<not> isl (fst (captureLoop_cf env_skip ''/tmp/e1'' None (totalFrames 5) 0 0 0 world0))"
    by (rule captureLoop_cf_returns) (simp_all add: env_skip_def env0_def ok_frame_facts)
  have v: "\<not> valid_dataUrl (the (capture (frame env_skip 1)))"
    by (simp add: env_skip_def env0_def valid_dataUrl_def)
  from captureLoop_cf_frames [OF rcf] v
  have "1 \<notin> set (frame_indices (trace (snd (captureLoop_cf env_skip ''/tmp/e1'' None (totalFrames 5) 0 0 0 world0))))"
    by (simp add: world0_def)
  with rcf show ?thesis by (simp add: totalFrames_5)
qed

subsection \<open>The FFmpeg fallback\<close>

text \<open>
  The counters hold one sample for each of the first five frames: after a loop over at
  least five frames that ends normally they add up to five, and every export has at least
  120 frames.
\<close>

lemma captureFrame_counters:
  "captureFrame e dir wh n i s f w = (Inr (s1, f1), w1)
     \<Longrightarrow> s1 + f1 = s + f + (if i < 5 then 1 else 0)"
  by (auto simp: captureFrame_def Let_def split: if_splits option.splits)

lemma captureFrame_cf_counters:
  "captureFrame_cf e dir wh n i s f w = (Inr (s1, f1), w1)
     \<Longrightarrow> s1 + f1 = s + f + (if i < 5 then 1 else 0)"
  by (auto simp: captureFrame_cf_def Let_def split: if_splits option.splits)

lemma captureLoop_counters:
  "captureLoop e dir wh n i s f w = (Inr (s', f'), w')
     \<Longrightarrow> s' + f' = s + f + (min n 5 - min i 5)"
proof (induction e dir wh n i s f w rule: captureLoop.induct)
  case (1 e dir wh n i s f w)
  show ?case
  proof (cases "i < n")
    case False
    with "1.prems" show ?thesis by (simp add: captureLoop_done)
  next
    case True
    obtain r w1 where step: "captureFrame e dir wh n i s f w = (r, w1)"
      by (cases "captureFrame e dir wh n i s f w")
    show ?thesis
    proof (cases r)
      case (Inl err)
      with True step "1.prems" show ?thesis by (simp add: captureLoop_stop)
    next
      case (Inr sf)
      obtain s1 f1 where sf: "sf = (s1, f1)" by (cases sf)
      from True step Inr sf "1.prems"
      have "captureLoop e dir wh n (i + 1) s1 f1 w1 = (Inr (s', f'), w')"
        by (simp add: captureLoop_unfold)
      from "1.IH" [OF True step [symmetric] Inr sf [symmetric] this]
        captureFrame_counters [OF step [unfolded Inr sf]] True
      show ?thesis by (auto split: if_splits)
    qed
  qed
qed

lemma captureLoop_cf_counters:
  "captureLoop_cf e dir wh n i s f w = (Inr (s', f'), w')
     \<Longrightarrow> s' + f' = s + f + (min n 5 - min i 5)"
proof (induction e dir wh n i s f w rule: captureLoop_cf.induct)
  case (1 e dir wh n i s f w)
  show ?case
  proof (cases "i < n")
    case False
    with "1.prems" show ?thesis by (simp add: captureLoop_cf_done)
  next
    case True
    obtain r w1 where step: "captureFrame_cf e dir wh n i s f w = (r, w1)"
      by (cases "captureFrame_cf e dir wh n i s f w")
    show ?thesis
    proof (cases r)
      case (Inl err)
      with True step "1.prems" show ?thesis by (simp add: captureLoop_cf_stop)
    next
      case (Inr sf)
      obtain s1 f1 where sf: "sf = (s1, f1)" by (cases sf)
      from True step Inr sf "1.prems"
      have "captureLoop_cf e dir wh n (i + 1) s1 f1 w1 = (Inr (s', f'), w')"
        by (simp add: captureLoop_cf_unfold)
      from "1.IH" [OF True step [symmetric] Inr sf [symmetric] this]
        captureFrame_cf_counters [OF step [unfolded Inr sf]] True
      show ?thesis by (auto split: if_splits)
    qed
  qed
qed

lemma totalFrames_ge:
  assumes "5 \<le> d"
  shows "120 \<le> totalFrames d"
proof -
  from assms have "(120::real) \<le> d * 24" by simp
  then have "(120::int) \<le> \<lfloor>d * 24\<rfloor>" by (simp add: le_floor_iff)
  then have "nat 120 \<le> nat \<lfloor>d * 24\<rfloor>" by (rule nat_mono)
  then show ?thesis by (simp add: totalFrames_def fps_def)
qed

lemma five_samples:
  assumes "5 \<le> d"
  shows "captureLoop e dir wh (totalFrames d) 0 0 0 w = (Inr (s, f), w') \<Longrightarrow> s + f = 5"
    and "captureLoop_cf e dir wh (totalFrames d) 0 0 0 w = (Inr (s, f), w') \<Longrightarrow> s + f = 5"
  using totalFrames_ge [OF assms]
    captureLoop_counters [of e dir wh "totalFrames d" 0 0 0 w s f w']
    captureLoop_cf_counters [of e dir wh "totalFrames d" 0 0 0 w s f w']
  by simp_all

lemma fallback_invoked_refl: "\<not> fallback_invoked w w"
  by (simp add: fallback_invoked_def)

lemma extract_invoked:
  "fallback_invoked w (snd (extractVideoFramesWithFFmpeg e vp dir r d w))"
  by (auto simp: fallback_invoked_def extractVideoFramesWithFFmpeg_def Let_def emit_def
        mkdir_recursive_def split: option.splits)

lemma fallbackCheck_invoked:
  "fallback_invoked w (fallbackCheck e objs dir dur s f w)
     = (s < f \<and> (\<exists>obj. objs = [obj] \<and> type obj = Some ''video''))"
  by (auto simp: fallbackCheck_def fallback_invoked_refl extract_invoked split: list.splits)

lemma fallbackCheck_cf_invoked:
  "fallback_invoked w (snd (fallbackCheck_cf e objs dir dur s f w))
     = (0 < s + f \<and> real s / real (s + f) * 100 < 20 \<and>
        (\<exists>obj. objs = [obj] \<and> is_video obj \<and> truthy (src obj) \<and> the (src obj) \<in> files w))"
  by (auto simp: fallbackCheck_cf_def Let_def fallback_invoked_refl extract_invoked truthy_def
        split: list.splits option.splits)

lemma ratio_half:
  assumes "0 < s + f"
  shows "(successRatio s f < 1 / 2) = (s < f)"
proof -
  from assms have pos: "0 < real (s + f)" by (simp only: of_nat_0_less_iff)
  have "(real s / real (s + f) < 1 / 2) = (real s * 2 < real (s + f))"
    using pos by (simp add: field_simps)
  also have "\<dots> = (s < f)"
    by (simp only: of_nat_add) linarith
  finally show ?thesis by (simp add: successRatio_def)
qed

lemma ratio_fifth:
  "(real s / real (s + f) * 100 < 20) = (successRatio s f < 1 / 5)"
proof -
  have "(q * 100 < 20) = (q < 1 / 5)" for q :: real
    by auto
  from this [of "real s / real (s + f)"] show ?thesis
    unfolding successRatio_def .
qed

lemma is_video_plain: "\<not> truthy (customType obj) \<Longrightarrow> is_video obj = (type obj = Some ''video'')"
  by (simp add: is_video_def effective_type_def)

text \<open>
  Claim C3, amended. Neither variant calls the FFmpeg fallback for an object list of more
  or fewer than one element, whatever the counters. A call implies a success ratio below
  \<open>1/2\<close> in \<^verbatim>\<open>part_001\<close> (\<^verbatim>\<open>failedSeeks > successfulSeeks\<close>) and below \<open>1/5\<close> in
  \<^verbatim>\<open>captureFrames.ts\<close> (\<^verbatim>\<open>accuracy < 20\<close>). For a list of one object and at least one
  sample: \<^verbatim>\<open>part_001\<close> calls the fallback exactly when the ratio is below \<open>1/2\<close> and
  the object is a video (stated for an object without \<^verbatim>\<open>customType\<close>);
  \<^verbatim>\<open>captureFrames.ts\<close> calls it exactly when the ratio is below \<open>1/5\<close>, the object is a
  video and its source is a file that exists on the local disk.
\<close>

theorem fallback_only_for_single_video:
  "(length objs \<noteq> 1 \<longrightarrow>
      \<not> fallback_invoked w (fallbackCheck e objs dir dur s f w) \<and>
      \<not> fallback_invoked w (snd (fallbackCheck_cf e objs dir dur s f w))) \<and>
   (fallback_invoked w (fallbackCheck e objs dir dur s f w)
      \<longrightarrow> 0 < s + f \<and> successRatio s f < 1 / 2) \<and>
   (fallback_invoked w (snd (fallbackCheck_cf e objs dir dur s f w))
      \<longrightarrow> 0 < s + f \<and> successRatio s f < 1 / 5) \<and>
   (\<forall>obj. objs = [obj] \<and> \<not> truthy (customType obj) \<and> 0 < s + f \<longrightarrow>
      fallback_invoked w (fallbackCheck e objs dir dur s f w)
        = (successRatio s f < 1 / 2 \<and> is_video obj)) \<and>
   (\<forall>obj. objs = [obj] \<and> 0 < s + f \<longrightarrow>
      fallback_invoked w (snd (fallbackCheck_cf e objs dir dur s f w))
        = (successRatio s f < 1 / 5 \<and> is_video obj \<and> truthy (src obj) \<and> the (src obj) \<in> files w))"
proof -
  have a: "length objs \<noteq> 1 \<longrightarrow>
      \<not> fallback_invoked w (fallbackCheck e objs dir dur s f w) \<and>
      \<not> fallback_invoked w (snd (fallbackCheck_cf e objs dir dur s f w))"
    unfolding fallbackCheck_invoked fallbackCheck_cf_invoked by auto
  have b: "fallback_invoked w (fallbackCheck e objs dir dur s f w)
      \<longrightarrow> 0 < s + f \<and> successRatio s f < 1 / 2"
    unfolding fallbackCheck_invoked using ratio_half [of s f] by auto
  have c: "fallback_invoked w (snd (fallbackCheck_cf e objs dir dur s f w))
      \<longrightarrow> 0 < s + f \<and> successRatio s f < 1 / 5"
    unfolding fallbackCheck_cf_invoked using ratio_fifth [of s f] by auto
  have d: "\<forall>obj. objs = [obj] \<and> \<not> truthy (customType obj) \<and> 0 < s + f \<longrightarrow>
      fallback_invoked w (fallbackCheck e objs dir dur s f w)
        = (successRatio s f < 1 / 2 \<and> is_video obj)"
    unfolding fallbackCheck_invoked using ratio_half [of s f] by (auto simp: is_video_plain)
  have e: "\<forall>obj. objs = [obj] \<and> 0 < s + f \<longrightarrow>
      fallback_invoked w (snd (fallbackCheck_cf e objs dir dur s f w))
        = (successRatio s f < 1 / 5 \<and> is_video obj \<and> truthy (src obj) \<and> the (src obj) \<in> files w)"
    unfolding fallbackCheck_cf_invoked using ratio_fifth [of s f] by auto
  from a b c d e show ?thesis by blast
qed

theorem fallback_only_for_single_video_witness:
  "length [local_clip, local_logo] \<noteq> 1 \<and>
   \<not> fallback_invoked media_world (fallbackCheck env0 [local_clip, local_logo] ''/tmp/e1/frames'' 5 0 5 media_world) \<and>
   \<not> truthy (customType plain_video) \<and> successRatio 1 4 < 1 / 2 \<and> is_video plain_video \<and>
   fallback_invoked media_world (fallbackCheck env0 [plain_video] ''/tmp/e1/frames'' 5 1 4 media_world) \<and>
   successRatio 0 5 < 1 / 5 \<and> is_video local_clip \<and> truthy (src local_clip) \<and>
   the (src local_clip) \<in> files media_world \<and>
   fallback_invoked media_world (snd (fallbackCheck_cf env0 [local_clip] ''/tmp/e1'' 5 0 5 media_world))"
proof -
  have p: "\<not> truthy (customType plain_video)" "is_video plain_video"
    by (simp_all add: plain_video_def truthy_def is_video_def effective_type_def)
  have l: "is_video local_clip" "truthy (src local_clip)" "the (src local_clip) \<in> files media_world"
    by (simp_all add: local_clip_def clip_def truthy_def is_video_def effective_type_def media_world_def)
  have r: "successRatio 1 4 < 1 / 2" "successRatio 0 5 < 1 / 5"
    by (simp_all add: successRatio_def)
  from fallback_only_for_single_video
         [of "[local_clip, local_logo]" media_world env0 "''/tmp/e1/frames''" 5 0 5]
  have a: "\<not> fallback_invoked media_world
             (fallbackCheck env0 [local_clip, local_logo] ''/tmp/e1/frames'' 5 0 5 media_world)"
    by simp
  from fallback_only_for_single_video [of "[plain_video]" media_world env0 "''/tmp/e1/frames''" 5 1 4] p r
  have b: "fallback_invoked media_world (fallbackCheck env0 [plain_video] ''/tmp/e1/frames'' 5 1 4 media_world)"
    by simp
  from fallback_only_for_single_video [of "[local_clip]" media_world env0 "''/tmp/e1''" 5 0 5] l r
  have c: "fallback_invoked media_world (snd (fallbackCheck_cf env0 [local_clip] ''/tmp/e1'' 5 0 5 media_world))"
    by simp
  from a b c p l r show ?thesis by simp
qed

text \<open>
  Claim C3 as stated fails in \<^verbatim>\<open>captureFrames.ts\<close>: a scene of exactly one video whose
  source is a remote URL (no local file), with every sampled seek failed, does not reach
  the fallback.
\<close>

theorem fallback_needs_local_file_counterexample:
  "successRatio 0 5 = 0 \<and> length [clip] = 1 \<and> is_video clip \<and>
   \<not> fallback_invoked world0 (snd (fallbackCheck_cf env0 [clip] ''/tmp/e1'' 5 0 5 world0))"
  by (simp add: successRatio_def is_video_def effective_type_def truthy_def clip_def
        fallbackCheck_cf_invoked world0_def)

subsection \<open>Reports of failure to the webhook\<close>

lemma failed_reports_emit:
  "failed_reports (trace (emit ev w))
     = failed_reports (trace w) @ (if is_failed_report ev then [ev] else [])"
  by (simp add: failed_reports_def emit_def)

lemma failed_reports_files_update [simp]:
  "failed_reports (trace (w\<lparr>files := fs\<rparr>)) = failed_reports (trace w)"
  by simp

lemma failed_reports_mkdir:
  "failed_reports (trace (mkdir_recursive p w)) = failed_reports (trace w)"
  by (simp add: mkdir_recursive_def failed_reports_emit)

lemma failed_reports_rm:
  "failed_reports (trace (rm_recursive p w)) = failed_reports (trace w)"
  by (simp add: rm_recursive_def failed_reports_emit)

lemma failed_reports_reportProgress:
  "failed_reports (trace (reportProgress wh p st w))
     = failed_reports (trace w) @ (if truthy wh \<and> st = ''failed'' then [Progress p st] else [])"
  by (simp add: reportProgress_def failed_reports_emit)

lemma failed_reports_downloadAsset:
  "failed_reports (trace (snd (downloadAsset e url dir w))) = failed_reports (trace w)"
  by (simp add: downloadAsset_def Let_def failed_reports_emit)

lemma failed_reports_downloadAsset_pair:
  "downloadAsset e url dir w = (p, w1) \<Longrightarrow> failed_reports (trace w1) = failed_reports (trace w)"
  using failed_reports_downloadAsset [of e url dir w] by simp

lemma failed_reports_processObject:
  "processObject e dir obj w = (obj', w1) \<Longrightarrow> failed_reports (trace w1) = failed_reports (trace w)"
  by (auto simp: processObject_def Let_def split: option.splits prod.splits if_splits
        dest: failed_reports_downloadAsset_pair)

lemma failed_reports_processObjects:
  "processObjects e dir objs w = (objs', w') \<Longrightarrow> failed_reports (trace w') = failed_reports (trace w)"
proof (induction objs arbitrary: w objs' w')
  case Nil
  then show ?case by simp
next
  case (Cons obj objs)
  obtain obj1 w1 where a: "processObject e dir obj w = (obj1, w1)"
    by (cases "processObject e dir obj w")
  obtain objs2 w2 where b: "processObjects e dir objs w1 = (objs2, w2)"
    by (cases "processObjects e dir objs w1")
  from Cons.prems a b have "w' = w2" by simp
  with failed_reports_processObject [OF a] Cons.IH [OF b] show ?case by simp
qed

lemma failed_reports_processOptObjects:
  "processOptObjects e dir objs w = (objs', w') \<Longrightarrow> failed_reports (trace w') = failed_reports (trace w)"
  by (auto simp: processOptObjects_def split: option.splits prod.splits
        dest: failed_reports_processObjects)

lemma failed_reports_prepareDesignAssets:
  "prepareDesignAssets e d x w = (r, w') \<Longrightarrow> failed_reports (trace w') = failed_reports (trace w)"
  by (auto simp: prepareDesignAssets_def Let_def failed_reports_mkdir
        split: if_splits layers_field.splits option.splits prod.splits
        dest!: failed_reports_processOptObjects)

lemma failed_reports_extractAudio:
  "failed_reports (trace (snd (extractAudio e d od w))) = failed_reports (trace w)"
  by (auto simp: extractAudio_def Let_def failed_reports_emit split: option.splits)

lemma failed_reports_captureFrame:
  "failed_reports (trace (snd (captureFrame e dir wh n i s f w))) = failed_reports (trace w)"
  by (auto simp: captureFrame_def Let_def failed_reports_emit failed_reports_reportProgress
        split: option.splits)

lemma failed_reports_captureLoop:
  "failed_reports (trace (snd (captureLoop e dir wh n i s f w))) = failed_reports (trace w)"
proof -
  have "case captureLoop e dir wh n i s f w of
           (Inl err, w') \<Rightarrow> failed_reports (trace w') = failed_reports (trace w)
         | (Inr sf, w') \<Rightarrow> failed_reports (trace w') = failed_reports (trace w)"
  proof (rule captureLoop_invariant
          [where I = "\<lambda>k w'. failed_reports (trace w') = failed_reports (trace w)"
             and E = "\<lambda>err w'. failed_reports (trace w') = failed_reports (trace w)"], goal_cases)
    case 1
    show ?case by simp
  next
    case (2 i s f w0 s1 f1 w1)
    with failed_reports_captureFrame [of e dir wh n i s f w0] show ?case by simp
  next
    case (3 i s f w0 err w1)
    with failed_reports_captureFrame [of e dir wh n i s f w0] show ?case by simp
  qed
  then show ?thesis
    by (cases "captureLoop e dir wh n i s f w") (auto split: sum.splits)
qed

lemma failed_reports_extractVideoFrames:
  "failed_reports (trace (snd (extractVideoFramesWithFFmpeg e vp dir r d w))) = failed_reports (trace w)"
  by (auto simp: extractVideoFramesWithFFmpeg_def Let_def failed_reports_emit failed_reports_mkdir
        split: option.splits)

lemma failed_reports_fallbackCheck:
  "failed_reports (trace (fallbackCheck e objs dir dur s f w)) = failed_reports (trace w)"
  by (auto simp: fallbackCheck_def failed_reports_extractVideoFrames split: list.splits)

lemma failed_reports_mergeVideo:
  "failed_reports (trace (snd (mergeVideo e dir a x w))) = failed_reports (trace w)"
  by (auto simp: mergeVideo_def Let_def failed_reports_emit failed_reports_mkdir split: option.splits)

lemma failed_reports_uploadVideo:
  "isl (fst (uploadVideo e b x wh w))
     \<Longrightarrow> failed_reports (trace (snd (uploadVideo e b x wh w))) = failed_reports (trace w)"
  by (auto simp: uploadVideo_def Let_def failed_reports_emit failed_reports_reportProgress
        split: if_splits upload_result.splits)

lemma failed_reports_renderVideo_try:
  assumes "renderVideo_try e d x wh w = (Inl err, w')"
  shows "failed_reports (trace w') = failed_reports (trace w)"
proof -
  let ?base = "join (tmpdir e) x"
  let ?frames = "join ?base ''frames''"
  obtain r1 w1 where p: "prepareDesignAssets e d x w = (r1, w1)"
    by (cases "prepareDesignAssets e d x w")
  note q1 = failed_reports_prepareDesignAssets [OF p]
  show ?thesis
  proof (cases r1)
    case (Inl err1)
    with p q1 assms show ?thesis by (simp add: renderVideo_try_def)
  next
    case ld: (Inr localDesign)
    obtain audioPath w2 where a: "extractAudio e localDesign (Some ?base) w1 = (audioPath, w2)"
      by (cases "extractAudio e localDesign (Some ?base) w1")
    from failed_reports_extractAudio [of e localDesign "Some ?base" w1] a q1
    have q2: "failed_reports (trace w2) = failed_reports (trace w)" by simp
    show ?thesis
    proof (cases "resolveDuration e localDesign audioPath w2")
      case (Inl err2)
      with p ld a q2 assms show ?thesis by (simp add: renderVideo_try_def)
    next
      case dur: (Inr duration)
      show ?thesis
      proof (cases "newPage_ok e \<and> surface_ready e")
        case False
        with p ld a dur q2 assms show ?thesis by (auto simp: renderVideo_try_def)
      next
        case ready: True
        obtain r3 w3 where l: "captureLoop e ?frames wh (totalFrames duration) 0 0 0 w2 = (r3, w3)"
          by (cases "captureLoop e ?frames wh (totalFrames duration) 0 0 0 w2")
        from failed_reports_captureLoop [of e ?frames wh "totalFrames duration" 0 0 0 w2] l q2
        have q3: "failed_reports (trace w3) = failed_reports (trace w)" by simp
        show ?thesis
        proof (cases r3)
          case (Inl err3)
          with p ld a dur ready l q3 assms show ?thesis by (simp add: renderVideo_try_def)
        next
          case (Inr sf)
          obtain s f where sf: "sf = (s, f)" by (cases sf)
          define objs where "objs = (case designObjects localDesign of Inr os \<Rightarrow> os | Inl _ \<Rightarrow> [])"
          define w5 where "w5 = reportProgress wh 90 ''merging_video''
                                  (fallbackCheck e objs ?frames duration s f w3)"
          have q5: "failed_reports (trace w5) = failed_reports (trace w)"
            by (simp add: w5_def failed_reports_reportProgress failed_reports_fallbackCheck q3)
          obtain r6 w6 where m: "mergeVideo e ?frames audioPath x w5 = (r6, w6)"
            by (cases "mergeVideo e ?frames audioPath x w5")
          from failed_reports_mergeVideo [of e ?frames audioPath x w5] m q5
          have q6: "failed_reports (trace w6) = failed_reports (trace w)" by simp
          have unfold: "renderVideo_try e d x wh w =
                  (case r6 of
                     Inl err \<Rightarrow> (Inl err, w6)
                   | Inr u \<Rightarrow> uploadVideo e ?base x wh (reportProgress wh 95 ''uploading'' w6))"
            using p ld a dur ready l Inr sf m
            by (simp add: renderVideo_try_def objs_def w5_def)
          show ?thesis
          proof (cases r6)
            case (Inl err6)
            with unfold q6 assms show ?thesis by simp
          next
            case (Inr u)
            with unfold assms
            have up: "uploadVideo e ?base x wh (reportProgress wh 95 ''uploading'' w6) = (Inl err, w')"
              by simp
            from failed_reports_uploadVideo [of e ?base x wh "reportProgress wh 95 ''uploading'' w6"] up
            have "failed_reports (trace w') = failed_reports (trace (reportProgress wh 95 ''uploading'' w6))"
              by simp
            with q6 show ?thesis by (simp add: failed_reports_reportProgress)
          qed
        qed
      qed
    qed
  qed
qed

lemma failed_reports_cleanupExport:
  "failed_reports (trace (cleanupExport e x w)) = failed_reports (trace w)"
  by (simp add: cleanupExport_def Let_def failed_reports_rm)

lemma failed_reports_renderVideo:
  assumes "renderVideo e d x wh w = (Inl err, w')" and "err \<noteq> CloseError"
  shows "failed_reports (trace w') = failed_reports (trace w)"
proof -
  let ?frames = "join (join (tmpdir e) x) ''frames''"
  define w0 where "w0 = (if ?frames \<notin> files w then mkdir_recursive ?frames w else w)"
  have q0: "failed_reports (trace w0) = failed_reports (trace w)"
    by (simp add: w0_def failed_reports_mkdir)
  obtain r w1 where t: "renderVideo_try e d x wh w0 = (r, w1)"
    by (cases "renderVideo_try e d x wh w0")
  show ?thesis
  proof (cases "(?frames \<notin> files w \<and> \<not> mkdir_ok e ?frames) \<or> \<not> launch_ok e")
    case True
    with assms q0 show ?thesis
      by (auto simp: renderVideo_def Let_def w0_def split: if_splits)
  next
    case False
    with assms t have r: "r = Inl err" and w': "w' = cleanupExport e x (emit BrowserClose w1)"
      by (auto simp: renderVideo_def Let_def w0_def split: if_splits)
    from failed_reports_renderVideo_try [OF t [unfolded r]] q0 w' show ?thesis
      by (simp add: failed_reports_cleanupExport failed_reports_emit)
  qed
qed

lemma failed_reports_captureFrame_cf:
  "failed_reports (trace (snd (captureFrame_cf e dir wh n i s f w))) = failed_reports (trace w)"
  by (auto simp: captureFrame_cf_def Let_def failed_reports_emit failed_reports_reportProgress
        split: option.splits)

lemma captureFrame_cf_error:
  "captureFrame_cf e dir wh n i s f w = (Inl err, w1) \<Longrightarrow> err \<noteq> UploadError"
  by (auto simp: captureFrame_cf_def Let_def split: option.splits if_splits)

lemma failed_reports_captureLoop_cf:
  "case captureLoop_cf e dir wh n i s f w of
     (Inl err, w') \<Rightarrow> failed_reports (trace w') = failed_reports (trace w) \<and> err \<noteq> UploadError
   | (Inr sf, w') \<Rightarrow> failed_reports (trace w') = failed_reports (trace w)"
proof (rule captureLoop_cf_invariant
          [where I = "\<lambda>k w'. failed_reports (trace w') = failed_reports (trace w)"
             and E = "\<lambda>err w'. failed_reports (trace w') = failed_reports (trace w) \<and> err \<noteq> UploadError"],
       goal_cases)
  case 1
  show ?case by simp
next
  case (2 i s f w0 s1 f1 w1)
  with failed_reports_captureFrame_cf [of e dir wh n i s f w0] show ?case by simp
next
  case (3 i s f w0 err w1)
  with failed_reports_captureFrame_cf [of e dir wh n i s f w0] captureFrame_cf_error [OF 3(3)]
  show ?case by simp
qed

lemma failed_reports_fallbackCheck_cf:
  "failed_reports (trace (snd (fallbackCheck_cf e objs dir dur s f w))) = failed_reports (trace w)"
  by (simp add: fallbackCheck_cf_def Let_def failed_reports_extractVideoFrames)

lemma mergeVideo_error:
  "mergeVideo e dir a x w = (Inl err, w') \<Longrightarrow> err \<noteq> UploadError"
  by (auto simp: mergeVideo_def Let_def split: option.splits if_splits)

lemma uploadVideo_cf_failed:
  "uploadVideo_cf e x wh w = (Inl UploadError, w') \<Longrightarrow> truthy wh
     \<Longrightarrow> failed_reports (trace w') = failed_reports (trace w) @ [Progress 100 ''failed'']"
  by (auto simp: uploadVideo_cf_def Let_def failed_reports_emit failed_reports_reportProgress
        split: if_splits upload_result.splits)

lemma failed_reports_renderVideo_try_cf:
  assumes "renderVideo_try_cf e objs audioPath duration x wh w = (Inl UploadError, w')"
    and "truthy wh"
  shows "failed_reports (trace w') = failed_reports (trace w) @ [Progress 100 ''failed'']"
proof -
  let ?frames = "join (tmpdir e) x"
  from assms(1) have ready: "surface_ready e"
    by (auto simp: renderVideo_try_cf_def Let_def split: if_splits)
  obtain r1 w1 where l: "captureLoop_cf e ?frames wh (totalFrames duration) 0 0 0 w = (r1, w1)"
    by (cases "captureLoop_cf e ?frames wh (totalFrames duration) 0 0 0 w")
  from failed_reports_captureLoop_cf
         [where e = e and dir = ?frames and wh = wh and n = "totalFrames duration"
            and i = 0 and s = 0 and f = 0 and w = w] l
  have q1: "failed_reports (trace w1) = failed_reports (trace w)"
    and e1: "\<And>err. r1 = Inl err \<Longrightarrow> err \<noteq> UploadError"
    by (auto split: sum.splits)
  show ?thesis
  proof (cases r1)
    case (Inl err1)
    with assms(1) ready l e1 [OF Inl] show ?thesis by (simp add: renderVideo_try_cf_def)
  next
    case (Inr sf)
    obtain s f where sf: "sf = (s, f)" by (cases sf)
    obtain ok w2 where fb: "fallbackCheck_cf e objs ?frames duration s f w1 = (ok, w2)"
      by (cases "fallbackCheck_cf e objs ?frames duration s f w1")
    from failed_reports_fallbackCheck_cf [of e objs ?frames duration s f w1] fb q1
    have q2: "failed_reports (trace w2) = failed_reports (trace w)" by simp
    show ?thesis
    proof (cases ok)
      case True
      with assms(1) ready l Inr sf fb
      have "mergeVideo e ?frames audioPath x w2 = (Inl UploadError, w')"
        by (simp add: renderVideo_try_cf_def)
      from mergeVideo_error [OF this] show ?thesis by simp
    next
      case False
      let ?w3 = "reportProgress wh 90 ''merging_video'' w2"
      obtain r4 w4 where m: "mergeVideo e ?frames audioPath x ?w3 = (r4, w4)"
        by (cases "mergeVideo e ?frames audioPath x ?w3")
      from failed_reports_mergeVideo [of e ?frames audioPath x ?w3] m q2
      have q4: "failed_reports (trace w4) = failed_reports (trace w)"
        by (simp add: failed_reports_reportProgress)
      show ?thesis
      proof (cases r4)
        case (Inl err4)
        with assms(1) ready l Inr sf fb False m mergeVideo_error [of e ?frames audioPath x ?w3 err4 w4]
        show ?thesis by (simp add: renderVideo_try_cf_def)
      next
        case u: (Inr u)
        with assms(1) ready l Inr sf fb False m
        have "uploadVideo_cf e x wh (reportProgress wh 95 ''uploading'' w4) = (Inl UploadError, w')"
          by (simp add: renderVideo_try_cf_def)
        from uploadVideo_cf_failed [OF this assms(2)] q4 show ?thesis
          by (simp add: failed_reports_reportProgress)
      qed
    qed
  qed
qed

lemma resolveDuration_error:
  "resolveDuration e d ap w = Inl err \<Longrightarrow> err = JsonError"
  by (auto simp: resolveDuration_def designObjects_def split: sum.splits layers_field.splits option.splits)

lemma failed_reports_renderVideo_cf:
  assumes "renderVideo_cf e d x wh w = (Inl UploadError, w')" and "truthy wh"
  shows "failed_reports (trace w') = failed_reports (trace w) @ [Progress 100 ''failed'']"
proof -
  let ?frames = "join (tmpdir e) x"
  define w0 where "w0 = (if ?frames \<notin> files w then mkdir_recursive ?frames w else w)"
  have q0: "failed_reports (trace w0) = failed_reports (trace w)"
    by (simp add: w0_def failed_reports_mkdir)
  define ld where "ld = processDesignPaths w0 d"
  obtain ap w1 where a: "extractAudio e ld None w0 = (ap, w1)"
    by (cases "extractAudio e ld None w0")
  from failed_reports_extractAudio [of e ld None w0] a q0
  have q1: "failed_reports (trace w1) = failed_reports (trace w)" by simp
  define objs where "objs = (case designObjects ld of Inr os \<Rightarrow> os | Inl _ \<Rightarrow> [])"
  from assms(1) have mk: "\<not> (?frames \<notin> files w \<and> \<not> mkdir_ok e ?frames)"
    by (auto simp: renderVideo_cf_def Let_def split: if_splits)
  show ?thesis
  proof (cases "resolveDuration e ld ap w1")
    case (Inl err)
    with assms(1) mk a resolveDuration_error [OF Inl] show ?thesis
      by (simp add: renderVideo_cf_def Let_def w0_def [symmetric] ld_def [symmetric])
  next
    case (Inr dur)
    obtain r w2 where t: "renderVideo_try_cf e objs ap dur x wh w1 = (r, w2)"
      by (cases "renderVideo_try_cf e objs ap dur x wh w1")
    from assms(1) mk a Inr t have "r = Inl UploadError \<and> w' = emit BrowserClose w2"
      by (simp add: renderVideo_cf_def Let_def w0_def [symmetric] ld_def [symmetric]
            objs_def [symmetric] split: if_splits)
    with failed_reports_renderVideo_try_cf [OF _ assms(2), of e objs ap dur x w1 w2] t q1
    show ?thesis
      by (simp add: failed_reports_emit)
  qed
qed

text \<open>
  Claim C4. A run of \<^verbatim>\<open>renderVideo\<close> that ends with the upload error (the response was
  not \<^verbatim>\<open>ok\<close>): in \<^verbatim>\<open>part_001\<close> no report with status \<^verbatim>\<open>failed\<close> was sent during the
  run, the error goes to the outer \<^verbatim>\<open>catch\<close>, which only rethrows; in
  \<^verbatim>\<open>captureFrames.ts\<close>, with a webhook configured, exactly one report
  \<^verbatim>\<open>(100, failed)\<close> was sent before the error left the function.
\<close>

theorem upload_failure_reported_in_one_variant_only:
  "(fst (renderVideo e d x wh w) = Inl UploadError \<longrightarrow>
      failed_reports (trace (snd (renderVideo e d x wh w))) = failed_reports (trace w)) \<and>
   (fst (renderVideo_cf e d x wh w) = Inl UploadError \<and> truthy wh \<longrightarrow>
      failed_reports (trace (snd (renderVideo_cf e d x wh w)))
        = failed_reports (trace w) @ [Progress 100 ''failed''])"
proof -
  have "failed_reports (trace (snd (renderVideo e d x wh w))) = failed_reports (trace w)"
    if "fst (renderVideo e d x wh w) = Inl UploadError"
    using that failed_reports_renderVideo [of e d x wh w UploadError "snd (renderVideo e d x wh w)"]
    by (cases "renderVideo e d x wh w") simp
  moreover have "failed_reports (trace (snd (renderVideo_cf e d x wh w)))
        = failed_reports (trace w) @ [Progress 100 ''failed'']"
    if "fst (renderVideo_cf e d x wh w) = Inl UploadError" and "truthy wh"
    using that failed_reports_renderVideo_cf [of e d x wh w "snd (renderVideo_cf e d x wh w)"]
    by (cases "renderVideo_cf e d x wh w") simp
  ultimately show ?thesis by blast
qed

subsection \<open>A run whose upload is refused\<close>

lemma files_mkdir: "files w \<subseteq> files (mkdir_recursive p w)"
  by (auto simp: mkdir_recursive_def emit_def)

lemma files_captureFrame:
  "captureFrame e dir wh n i s f w = (r, w1) \<Longrightarrow> files w \<subseteq> files w1"
  by (auto simp: captureFrame_def Let_def emit_def reportProgress_def split: if_splits option.splits)

lemma files_captureFrame_cf:
  "captureFrame_cf e dir wh n i s f w = (r, w1) \<Longrightarrow> files w \<subseteq> files w1"
  by (auto simp: captureFrame_cf_def Let_def emit_def reportProgress_def split: if_splits option.splits)

lemma files_captureLoop: "files w \<subseteq> files (snd (captureLoop e dir wh n i s f w))"
proof -
  have "case captureLoop e dir wh n i s f w of
           (Inl err, w') \<Rightarrow> files w \<subseteq> files w'
         | (Inr sf, w') \<Rightarrow> files w \<subseteq> files w'"
  proof (rule captureLoop_invariant
          [where I = "\<lambda>k w'. files w \<subseteq> files w'" and E = "\<lambda>err w'. files w \<subseteq> files w'"],
         goal_cases)
    case 1
    show ?case by simp
  next
    case (2 i s f w0 s1 f1 w1)
    with files_captureFrame [OF 2(3)] show ?case by blast
  next
    case (3 i s f w0 err w1)
    with files_captureFrame [OF 3(3)] show ?case by blast
  qed
  then show ?thesis
    by (cases "captureLoop e dir wh n i s f w") (auto split: sum.splits)
qed

lemma files_captureLoop_cf: "files w \<subseteq> files (snd (captureLoop_cf e dir wh n i s f w))"
proof -
  have "case captureLoop_cf e dir wh n i s f w of
           (Inl err, w') \<Rightarrow> files w \<subseteq> files w'
         | (Inr sf, w') \<Rightarrow> files w \<subseteq> files w'"
  proof (rule captureLoop_cf_invariant
          [where I = "\<lambda>k w'. files w \<subseteq> files w'" and E = "\<lambda>err w'. files w \<subseteq> files w'"],
         goal_cases)
    case 1
    show ?case by simp
  next
    case (2 i s f w0 s1 f1 w1)
    with files_captureFrame_cf [OF 2(3)] show ?case by blast
  next
    case (3 i s f w0 err w1)
    with files_captureFrame_cf [OF 3(3)] show ?case by blast
  qed
  then show ?thesis
    by (cases "captureLoop_cf e dir wh n i s f w") (auto split: sum.splits)
qed

lemma env_upload_fails_simps:
  "tmpdir env_upload_fails = ''/tmp''" "mkdir_ok env_upload_fails p" "readFile_ok env_upload_fails p"
  "exec env_upload_fails c fs = Some fs" "ffprobe env_upload_fails p = None"
  "launch_ok env_upload_fails" "newPage_ok env_upload_fails" "close_ok env_upload_fails"
  "surface_ready env_upload_fails" "frame env_upload_fails k = ok_frame"
  "writeFile_ok env_upload_fails w p" "upload_response env_upload_fails = UploadResponse False"
  "rm_ok env_upload_fails p"
  by (simp_all add: env_upload_fails_def env0_def)

lemma empty_design_stages:
  "fst (prepareDesignAssets env_upload_fails empty_design x w) = Inr empty_design"
  "files w \<subseteq> files (snd (prepareDesignAssets env_upload_fails empty_design x w))"
  "extractAudio e empty_design od w = (None, w)"
  "resolveDuration e empty_design None w = Inr 5"
  "designObjects empty_design = Inr []"
  "processDesignPaths w empty_design = empty_design"
  using files_mkdir [of w "join (join ''/tmp'' x) ''assets''"]
  by (simp_all add: prepareDesignAssets_def empty_design_def processOptObjects_def Let_def
        env_upload_fails_simps extractAudio_def audio_objects_def resolveDuration_def
        designObjects_def audioDuration_def truthy_def finalDuration_def processDesignPaths_def)

lemma mergeVideo_benign:
  "fst (mergeVideo env_upload_fails dir a x w) = Inr ()"
  "files w \<subseteq> files (snd (mergeVideo env_upload_fails dir a x w))"
  using files_mkdir [of w "''../main/storage/app/public/exports/videos''"]
  by (simp_all add: mergeVideo_def Let_def env_upload_fails_simps emit_def)

lemma renderVideo_try_upload_fails:
  assumes "''/tmp/e1/e1.mp4'' \<in> files w"
  shows "fst (renderVideo_try env_upload_fails empty_design ''e1'' wh w) = Inl UploadError"
proof -
  let ?e = env_upload_fails
  obtain r1 w1 where p: "prepareDesignAssets ?e empty_design ''e1'' w = (r1, w1)"
    by (cases "prepareDesignAssets ?e empty_design ''e1'' w")
  with empty_design_stages(1,2) [where x = "''e1''" and w = w] assms
  have r1: "r1 = Inr empty_design" and f1: "''/tmp/e1/e1.mp4'' \<in> files w1"
    by auto
  obtain r3 w3 where l: "captureLoop ?e ''/tmp/e1/frames'' wh (totalFrames 5) 0 0 0 w1 = (r3, w3)"
    by (cases "captureLoop ?e ''/tmp/e1/frames'' wh (totalFrames 5) 0 0 0 w1")
  have "\<not> isl (fst (captureLoop ?e ''/tmp/e1/frames'' wh (totalFrames 5) 0 0 0 w1))"
    by (rule captureLoop_returns) (simp_all add: env_upload_fails_simps ok_frame_facts)
  with l obtain s f where r3: "r3 = Inr (s, f)"
    by (cases r3) auto
  from files_captureLoop [of w1 ?e "''/tmp/e1/frames''" wh "totalFrames 5" 0 0 0] l f1
  have f3: "''/tmp/e1/e1.mp4'' \<in> files w3" by auto
  let ?w5 = "reportProgress wh 90 ''merging_video'' w3"
  obtain r6 w6 where m: "mergeVideo ?e ''/tmp/e1/frames'' None ''e1'' ?w5 = (r6, w6)"
    by (cases "mergeVideo ?e ''/tmp/e1/frames'' None ''e1'' ?w5")
  with mergeVideo_benign [where dir = "''/tmp/e1/frames''" and a = None and x = "''e1''" and w = ?w5] f3
  have r6: "r6 = Inr ()" and f6: "''/tmp/e1/e1.mp4'' \<in> files w6"
    by (auto simp: reportProgress_def emit_def)
  have up: "fst (uploadVideo ?e ''/tmp/e1'' ''e1'' wh (reportProgress wh 95 ''uploading'' w6)) = Inl UploadError"
    using f6 by (simp add: uploadVideo_def Let_def join_def env_upload_fails_simps reportProgress_def emit_def)
  show ?thesis
    using p r1 l r3 m r6 up
    by (simp add: renderVideo_try_def Let_def join_def env_upload_fails_simps empty_design_stages
          fallbackCheck_def)
qed

lemma fallbackCheck_cf_Nil: "fallbackCheck_cf e [] dir dur s f w = (False, w)"
  by (simp add: fallbackCheck_cf_def Let_def truthy_def)

lemma renderVideo_try_cf_upload_fails:
  assumes "''/tmp/e1.mp4'' \<in> files w"
  shows "fst (renderVideo_try_cf env_upload_fails [] None 5 ''e1'' wh w) = Inl UploadError"
proof -
  let ?e = env_upload_fails
  obtain r3 w3 where l: "captureLoop_cf ?e ''/tmp/e1'' wh (totalFrames 5) 0 0 0 w = (r3, w3)"
    by (cases "captureLoop_cf ?e ''/tmp/e1'' wh (totalFrames 5) 0 0 0 w")
  have "\<not> isl (fst (captureLoop_cf ?e ''/tmp/e1'' wh (totalFrames 5) 0 0 0 w))"
    by (rule captureLoop_cf_returns) (simp_all add: env_upload_fails_simps ok_frame_facts)
  with l obtain s f where r3: "r3 = Inr (s, f)"
    by (cases r3) auto
  from files_captureLoop_cf [of w ?e "''/tmp/e1''" wh "totalFrames 5" 0 0 0] l assms
  have f3: "''/tmp/e1.mp4'' \<in> files w3" by auto
  let ?w5 = "reportProgress wh 90 ''merging_video'' w3"
  obtain r6 w6 where m: "mergeVideo ?e ''/tmp/e1'' None ''e1'' ?w5 = (r6, w6)"
    by (cases "mergeVideo ?e ''/tmp/e1'' None ''e1'' ?w5")
  with mergeVideo_benign [where dir = "''/tmp/e1''" and a = None and x = "''e1''" and w = ?w5] f3
  have r6: "r6 = Inr ()" and f6: "''/tmp/e1.mp4'' \<in> files w6"
    by (auto simp: reportProgress_def emit_def)
  have up: "fst (uploadVideo_cf ?e ''e1'' wh (reportProgress wh 95 ''uploading'' w6)) = Inl UploadError"
    using f6 by (simp add: uploadVideo_cf_def Let_def join_def env_upload_fails_simps reportProgress_def emit_def)
  show ?thesis
    using l r3 m r6 up
    by (simp add: renderVideo_try_cf_def Let_def join_def env_upload_fails_simps fallbackCheck_cf_Nil)
qed

lemma renderVideo_upload_fails:
  "fst (renderVideo env_upload_fails empty_design ''e1'' hook stale_world) = Inl UploadError"
proof -
  let ?w0 = "mkdir_recursive ''/tmp/e1/frames'' stale_world"
  have "''/tmp/e1/e1.mp4'' \<in> files ?w0"
    using files_mkdir [of stale_world "''/tmp/e1/frames''"] by (auto simp: stale_world_def)
  from renderVideo_try_upload_fails [OF this, of hook]
  obtain w1 where "renderVideo_try env_upload_fails empty_design ''e1'' hook ?w0 = (Inl UploadError, w1)"
    by (cases "renderVideo_try env_upload_fails empty_design ''e1'' hook ?w0") simp
  then show ?thesis
    by (simp add: renderVideo_def Let_def join_def env_upload_fails_simps stale_world_def)
qed

lemma renderVideo_cf_upload_fails:
  "fst (renderVideo_cf env_upload_fails empty_design ''e1'' hook stale_world) = Inl UploadError"
proof -
  have "''/tmp/e1.mp4'' \<in> files stale_world"
    by (simp add: stale_world_def)
  from renderVideo_try_cf_upload_fails [OF this, of hook]
  obtain w1 where "renderVideo_try_cf env_upload_fails [] None 5 ''e1'' hook stale_world = (Inl UploadError, w1)"
    by (cases "renderVideo_try_cf env_upload_fails [] None 5 ''e1'' hook stale_world") simp
  then show ?thesis
    by (simp add: renderVideo_cf_def Let_def join_def env_upload_fails_simps empty_design_stages)
       (simp add: stale_world_def)
qed

theorem upload_failure_reported_in_one_variant_only_witness:
  "fst (renderVideo env_upload_fails empty_design ''e1'' hook stale_world) = Inl UploadError \<and>
   failed_reports (trace (snd (renderVideo env_upload_fails empty_design ''e1'' hook stale_world))) = [] \<and>
   fst (renderVideo_cf env_upload_fails empty_design ''e1'' hook stale_world) = Inl UploadError \<and>
   truthy hook \<and>
   failed_reports (trace (snd (renderVideo_cf env_upload_fails empty_design ''e1'' hook stale_world)))
     = [Progress 100 ''failed'']"
proof -
  have h: "truthy hook" by (simp add: hook_def truthy_def)
  have t: "failed_reports (trace stale_world) = []"
    by (simp add: stale_world_def failed_reports_def)
  from upload_failure_reported_in_one_variant_only [of env_upload_fails empty_design "''e1''" hook stale_world]
    renderVideo_upload_fails renderVideo_cf_upload_fails h t
  show ?thesis by simp
qed

subsection \<open>The working directory after a run\<close>

lemma set_ancestors:
  "set (ancestors p) = {take n p |n. 1 \<le> n \<and> n < length p \<and> p ! n = CHR ''/''}"
  by (auto simp: ancestors_def)

lemma ancestors_parent:
  assumes "q \<noteq> []"
  shows "q \<in> set (ancestors (join q c))"
proof -
  let ?p = "q @ ''/'' @ c"
  have "1 \<le> length q" using assms by (cases q) simp_all
  moreover have "length q < length ?p" by simp
  moreover have "?p ! length q = CHR ''/''" by (simp add: nth_append)
  moreover have "take (length q) ?p = q" by simp
  ultimately have "\<exists>n. q = take n ?p \<and> 1 \<le> n \<and> n < length ?p \<and> ?p ! n = CHR ''/''"
    by metis
  then show ?thesis
    unfolding set_ancestors join_def by blast
qed

lemma mkdir_recursive_files:
  "p \<in> files (mkdir_recursive p w)" "q \<noteq> [] \<Longrightarrow> q \<in> files (mkdir_recursive (join q c) w)"
  using ancestors_parent [of q c] by (simp_all add: mkdir_recursive_def emit_def)

lemma cleanupExport_removes:
  "rm_ok e (join (tmpdir e) x) \<Longrightarrow> join (tmpdir e) x \<notin> files (cleanupExport e x w)"
  by (simp add: cleanupExport_def Let_def rm_recursive_def emit_def)

lemma cleanupExport_removes_below:
  "rm_ok e (join (tmpdir e) x) \<Longrightarrow> join (tmpdir e) x \<in> files w
     \<Longrightarrow> join (join (tmpdir e) x) c \<notin> files (cleanupExport e x w)"
  by (simp add: cleanupExport_def Let_def rm_recursive_def emit_def join_def)

lemma renderVideo_cleans_up:
  assumes "launch_ok e" and "close_ok e" and "rm_ok e (join (tmpdir e) x)"
    and "fst (renderVideo e d x wh w) \<noteq> Inl MkdirError"
  shows "join (tmpdir e) x \<notin> files (snd (renderVideo e d x wh w))"
proof -
  let ?frames = "join (join (tmpdir e) x) ''frames''"
  let ?w0 = "if ?frames \<notin> files w then mkdir_recursive ?frames w else w"
  obtain r w1 where t: "renderVideo_try e d x wh ?w0 = (r, w1)"
    by (cases "renderVideo_try e d x wh ?w0")
  from assms(4) have "\<not> (?frames \<notin> files w \<and> \<not> mkdir_ok e ?frames)"
    by (auto simp: renderVideo_def Let_def split: if_splits)
  with assms(1,2) t have "snd (renderVideo e d x wh w) = cleanupExport e x (emit BrowserClose w1)"
    by (auto simp: renderVideo_def Let_def)
  with cleanupExport_removes [OF assms(3)] show ?thesis by simp
qed

lemma env0_simps:
  "tmpdir env0 = ''/tmp''" "mkdir_ok env0 p" "readFile_ok env0 p" "unlink_ok env0 p"
  "exec env0 c fs = Some fs" "ffprobe env0 p = None"
  "launch_ok env0" "newPage_ok env0" "close_ok env0"
  "surface_ready env0" "frame env0 k = ok_frame"
  "writeFile_ok env0 w p" "upload_response env0 = UploadResponse True"
  "rm_ok env0 p"
  by (simp_all add: env0_def)

lemma mergeVideo_env0:
  "fst (mergeVideo env0 dir a x w) = Inr ()"
  "files w \<subseteq> files (snd (mergeVideo env0 dir a x w))"
  using files_mkdir [of w "''../main/storage/app/public/exports/videos''"]
  by (simp_all add: mergeVideo_def Let_def env0_simps emit_def)

lemma uploadVideo_cf_env0:
  "fst (uploadVideo_cf env0 x wh w) = Inr ()"
  "p \<in> files w \<Longrightarrow> p \<noteq> join ''/tmp'' (x @ ''.mp4'') \<Longrightarrow> p \<in> files (snd (uploadVideo_cf env0 x wh w))"
  by (simp_all add: uploadVideo_cf_def Let_def env0_simps reportProgress_def emit_def)

lemma renderVideo_try_cf_env0:
  assumes "''/tmp/e1'' \<in> files w"
  shows "fst (renderVideo_try_cf env0 [] None 5 ''e1'' wh w) = Inr () \<and>
         ''/tmp/e1'' \<in> files (snd (renderVideo_try_cf env0 [] None 5 ''e1'' wh w))"
proof -
  obtain r3 w3 where l: "captureLoop_cf env0 ''/tmp/e1'' wh (totalFrames 5) 0 0 0 w = (r3, w3)"
    by (cases "captureLoop_cf env0 ''/tmp/e1'' wh (totalFrames 5) 0 0 0 w")
  have "\<not> isl (fst (captureLoop_cf env0 ''/tmp/e1'' wh (totalFrames 5) 0 0 0 w))"
    by (rule captureLoop_cf_returns) (simp_all add: env0_simps ok_frame_facts)
  with l obtain s f where r3: "r3 = Inr (s, f)"
    by (cases r3) auto
  from files_captureLoop_cf [of w env0 "''/tmp/e1''" wh "totalFrames 5" 0 0 0] l assms
  have f3: "''/tmp/e1'' \<in> files w3" by auto
  let ?w5 = "reportProgress wh 90 ''merging_video'' w3"
  obtain r6 w6 where m: "mergeVideo env0 ''/tmp/e1'' None ''e1'' ?w5 = (r6, w6)"
    by (cases "mergeVideo env0 ''/tmp/e1'' None ''e1'' ?w5")
  with mergeVideo_env0 [where dir = "''/tmp/e1''" and a = None and x = "''e1''" and w = ?w5] f3
  have r6: "r6 = Inr ()" and f6: "''/tmp/e1'' \<in> files w6"
    by (auto simp: reportProgress_def emit_def)
  let ?w7 = "reportProgress wh 95 ''uploading'' w6"
  from f6 have "''/tmp/e1'' \<in> files ?w7" by (simp add: reportProgress_def emit_def)
  from uploadVideo_cf_env0(1) [of "''e1''" wh ?w7] uploadVideo_cf_env0(2) [OF this, of "''e1''" wh]
  have up: "fst (uploadVideo_cf env0 ''e1'' wh ?w7) = Inr ()"
       "''/tmp/e1'' \<in> files (snd (uploadVideo_cf env0 ''e1'' wh ?w7))"
    by (simp_all add: join_def)
  show ?thesis
    using l r3 m r6 up
    by (simp add: renderVideo_try_cf_def Let_def join_def env0_simps fallbackCheck_cf_Nil)
qed

text \<open>
  Claim C6. Two runs after which the working directory of the job is still on disk. In
  \<^verbatim>\<open>part_001\<close> the frames directory is created and the browser launched before the
  \<^verbatim>\<open>try\<close>: when the launch fails, \<^verbatim>\<open>renderVideo\<close> throws and \<^verbatim>\<open>cleanupExport\<close> is
  never reached. In \<^verbatim>\<open>captureFrames.ts\<close> a run that returns normally only unlinks the
  merged file; the directory stays.
\<close>

theorem working_directory_left_behind:
  "fst (renderVideo env_no_launch empty_design ''e1'' hook world0) = Inl LaunchError \<and>
   ''/tmp/e1'' \<in> files (snd (renderVideo env_no_launch empty_design ''e1'' hook world0)) \<and>
   ''/tmp/e1/frames'' \<in> files (snd (renderVideo env_no_launch empty_design ''e1'' hook world0)) \<and>
   fst (renderVideo_cf env0 empty_design ''e1'' hook world0) = Inr () \<and>
   ''/tmp/e1'' \<in> files (snd (renderVideo_cf env0 empty_design ''e1'' hook world0))"
proof -
  have a: "renderVideo env_no_launch empty_design ''e1'' hook world0
             = (Inl LaunchError, mkdir_recursive ''/tmp/e1/frames'' world0)"
    by (simp add: renderVideo_def Let_def env_no_launch_def env0_def join_def world0_def)
  have b: "''/tmp/e1'' \<in> files (mkdir_recursive ''/tmp/e1/frames'' world0)"
    using mkdir_recursive_files(2) [of "''/tmp/e1''" "''frames''" world0] by (simp add: join_def)
  have c: "''/tmp/e1/frames'' \<in> files (mkdir_recursive ''/tmp/e1/frames'' world0)"
    by (rule mkdir_recursive_files(1))
  let ?w0 = "mkdir_recursive ''/tmp/e1'' world0"
  have "''/tmp/e1'' \<in> files ?w0" by (rule mkdir_recursive_files(1))
  from renderVideo_try_cf_env0 [OF this, of hook]
  obtain w1 where t: "renderVideo_try_cf env0 [] None 5 ''e1'' hook ?w0 = (Inr (), w1)"
    and f: "''/tmp/e1'' \<in> files w1"
    by (cases "renderVideo_try_cf env0 [] None 5 ''e1'' hook ?w0") auto
  have d: "renderVideo_cf env0 empty_design ''e1'' hook world0 = (Inr (), emit BrowserClose w1)"
    using t
    by (simp add: renderVideo_cf_def Let_def join_def env0_simps empty_design_stages)
       (simp add: world0_def)
  from a b c d f show ?thesis by (simp add: emit_def)
qed

end
